theory Spec2Isabelle
  imports Complex_Main
begin

section \<open>Python values, exceptions and results\<close>

text \<open>
  The anomaly service is Python. An exception is a value: its class and the text that
  \<^verbatim>\<open>str(e)\<close> gives. A call that may raise returns \<open>exc + 'a\<close>, with \<open>Inl\<close> the
  exception that reaches the caller.
\<close>

datatype exc_class =
  ValueError | AttributeError | IndexError | KeyError
  | FileNotFoundError | FileExistsError | IsADirectoryError | ModuleNotFoundError
  | LibraryError

datatype exc = Exc (cls: exc_class) (msg: string)

text \<open>
  The values of a float64 array: the finite ones, the two infinities and NaN. The
  arithmetic on them is numpy's, taken as a parameter below: it rounds, overflows to an
  infinity and gives NaN, and none of that is fixed here. The numbers that the service
  only hands to scikit-learn and gets back from it (samples, scores, the threshold, the
  contamination) are written as \<open>real\<close>.
\<close>

datatype float64 = Finite real | PosInf | NegInf | NaN

section \<open>The libraries\<close>

text \<open>
  A table as pandas holds it: named columns of cells. A cell is a number, or a value
  that \<^verbatim>\<open>astype(float)\<close> cannot convert.
\<close>

datatype cell = Num float64 | NonNumeric string

type_synonym dataframe = "(string \<times> cell list) list"

text \<open>
  The objects that the fields \<^verbatim>\<open>self.model\<close> and \<^verbatim>\<open>self.scaler\<close> and the persisted
  files can hold. Python does not type the fields: a method that an object's class
  lacks raises AttributeError. The internals of the three classes are parameters.
\<close>

datatype ('f, 'sc, 'l) pyobj = IsolationForest 'f | StandardScaler 'sc | Sequential 'l

text \<open>
  scikit-learn, Keras, pandas' CSV reader, numpy's float64 arithmetic, the clock and the
  import system, as far as the service calls them. A fit mutates its object and may
  raise (\<open>Some e\<close>), also after the mutation.
  \<^verbatim>\<open>forest_new c\<close> is \<^verbatim>\<open>IsolationForest(contamination=c, random_state=42, n_estimators=100)\<close>:
  the constructor only stores its arguments, \<^verbatim>\<open>fit\<close> validates them.
  \<^verbatim>\<open>import_datasets\<close> and \<^verbatim>\<open>import_train_lstm_model\<close> are the outcomes of the statements
  \<^verbatim>\<open>from datasets import DatasetLoader\<close> and
  \<^verbatim>\<open>from train_lstm_model import train_lstm_model\<close> in this process: \<open>None\<close> when the
  module and the packages it imports at its top (pandas and numpy, TensorFlow and
  scikit-learn) are there, the exception otherwise.
\<close>

record ('f, 'sc, 'l) lib =
  scaler_new :: 'sc
  scaler_fit :: "'sc \<Rightarrow> real list list \<Rightarrow> 'sc \<times> exc option"
  scaler_transform :: "'sc \<Rightarrow> real list list \<Rightarrow> exc + real list list"
  forest_new :: "real \<Rightarrow> 'f"
  forest_fit :: "'f \<Rightarrow> real list list \<Rightarrow> 'f \<times> exc option"
  forest_score_samples :: "'f \<Rightarrow> real list list \<Rightarrow> exc + real list"
  forest_predict :: "'f \<Rightarrow> real list list \<Rightarrow> exc + int list"
  sequential_build :: "nat \<Rightarrow> nat \<Rightarrow> exc + 'l"
  sequential_fit :: "'l \<Rightarrow> float64 list list list \<Rightarrow> nat \<Rightarrow> nat \<Rightarrow> exc + 'l"
  read_csv :: "string \<Rightarrow> exc + dataframe"
  np_minimum :: "float64 \<Rightarrow> float64 \<Rightarrow> float64"
  np_maximum :: "float64 \<Rightarrow> float64 \<Rightarrow> float64"
  np_subtract :: "float64 \<Rightarrow> float64 \<Rightarrow> float64"
  np_add :: "float64 \<Rightarrow> float64 \<Rightarrow> float64"
  np_divide :: "float64 \<Rightarrow> float64 \<Rightarrow> float64"
  import_datasets :: "exc option"
  import_train_lstm_model :: "exc option"
  now :: string

text \<open>
  \<^verbatim>\<open>obj.fit_transform(X)\<close> is scikit-learn's \<^verbatim>\<open>self.fit(X).transform(X)\<close>; only the
  scaler has it. \<^verbatim>\<open>obj.transform(X)\<close> likewise.
\<close>

fun obj_fit_transform ::
  "('f, 'sc, 'l) lib \<Rightarrow> ('f, 'sc, 'l) pyobj \<Rightarrow> real list list
     \<Rightarrow> ('f, 'sc, 'l) pyobj \<times> (exc + real list list)" where
  "obj_fit_transform L (StandardScaler sc) X =
     (case scaler_fit L sc X of
        (sc', Some e) \<Rightarrow> (StandardScaler sc', Inl e)
      | (sc', None) \<Rightarrow> (StandardScaler sc', scaler_transform L sc' X))"
| "obj_fit_transform L obj X =
     (obj, Inl (Exc AttributeError ''object has no attribute fit_transform''))"

fun obj_transform ::
  "('f, 'sc, 'l) lib \<Rightarrow> ('f, 'sc, 'l) pyobj \<Rightarrow> real list list \<Rightarrow> exc + real list list" where
  "obj_transform L (StandardScaler sc) X = scaler_transform L sc X"
| "obj_transform L obj X = Inl (Exc AttributeError ''object has no attribute transform'')"

text \<open>
  \<^verbatim>\<open>
  scores = -self.model.score_samples(data_scaled)
  predictions = self.model.predict(data_scaled)
  \<close>
  Only the isolation forest has \<^verbatim>\<open>score_samples\<close>, so on any other object the first
  line raises.
\<close>

fun obj_scores_predictions ::
  "('f, 'sc, 'l) lib \<Rightarrow> ('f, 'sc, 'l) pyobj \<Rightarrow> real list list
     \<Rightarrow> exc + (real list \<times> int list)" where
  "obj_scores_predictions L (IsolationForest f) X =
     (case forest_score_samples L f X of
        Inl e \<Rightarrow> Inl e
      | Inr raw \<Rightarrow>
          (case forest_predict L f X of
             Inl e \<Rightarrow> Inl e
           | Inr predictions \<Rightarrow> Inr (map uminus raw, predictions)))"
| "obj_scores_predictions L obj X =
     Inl (Exc AttributeError ''object has no attribute score_samples'')"

section \<open>datasets.py: DatasetLoader\<close>

text \<open>
  \<^verbatim>\<open>np.min(data)\<close> and \<^verbatim>\<open>np.max(data)\<close> raise ValueError on an array of size zero, and
  otherwise reduce the array with numpy's minimum and maximum.
\<close>

fun np_min :: "('f, 'sc, 'l) lib \<Rightarrow> float64 list \<Rightarrow> exc + float64" where
  "np_min L [] = Inl (Exc ValueError ''zero-size array to reduction operation minimum which has no identity'')"
| "np_min L (x # xs) = Inr (fold (\<lambda>v acc. np_minimum L acc v) xs x)"

fun np_max :: "('f, 'sc, 'l) lib \<Rightarrow> float64 list \<Rightarrow> exc + float64" where
  "np_max L [] = Inl (Exc ValueError ''zero-size array to reduction operation maximum which has no identity'')"
| "np_max L (x # xs) = Inr (fold (\<lambda>v acc. np_maximum L acc v) xs x)"

text \<open>The literal \<^verbatim>\<open>1e-8\<close>: the float64 nearest to it, \<open>0x1.5798ee2308c3ap-27\<close>.\<close>

definition float_1e_8 :: float64 where
  "float_1e_8 = Finite (3022314549036573 / 2 ^ 78)"

text \<open>
  \<^verbatim>\<open>normalized = (data - min_val) / (max_val - min_val + 1e-8)\<close>, elementwise in float64,
  returned with the minimum and the maximum.
\<close>

definition normalize_data ::
  "('f, 'sc, 'l) lib \<Rightarrow> float64 list \<Rightarrow> exc + (float64 list \<times> float64 \<times> float64)" where
  "normalize_data L data =
     (case np_min L data of
        Inl e \<Rightarrow> Inl e
      | Inr min_val \<Rightarrow>
          (case np_max L data of
             Inl e \<Rightarrow> Inl e
           | Inr max_val \<Rightarrow>
               Inr (map (\<lambda>v. np_divide L (np_subtract L v min_val)
                                 (np_add L (np_subtract L max_val min_val) float_1e_8)) data,
                    min_val, max_val)))"

text \<open>
  \<^verbatim>\<open>range(n)\<close> for a Python int \<open>n\<close> (empty when \<open>n \<le> 0\<close>), and the slice
  \<^verbatim>\<open>data[a:b]\<close>: a negative bound counts from the end, and both bounds are clamped to
  the sequence.
\<close>

definition py_range :: "int \<Rightarrow> int list" where
  "py_range n = map int [0 ..< nat n]"

definition slice_bound :: "nat \<Rightarrow> int \<Rightarrow> nat" where
  "slice_bound n k = (if k < 0 then nat (max 0 (k + int n)) else min (nat k) n)"

definition py_slice :: "'a list \<Rightarrow> int \<Rightarrow> int \<Rightarrow> 'a list" where
  "py_slice xs a b =
     (let lo = slice_bound (length xs) a; hi = slice_bound (length xs) b
      in take (hi - lo) (drop lo xs))"

text \<open>
  \<^verbatim>\<open>np.array(sequences)\<close> on a list of rows: rows of one length give a two-dimensional
  array (no row gives the empty array); rows of different lengths raise ValueError
  (numpy 1.24 and later).
\<close>

definition np_array_rows :: "'a list list \<Rightarrow> exc + 'a list list" where
  "np_array_rows rows =
     (if \<forall>r \<in> set rows. length r = length (hd rows) then Inr rows
      else Inl (Exc ValueError ''setting an array element with a sequence. The requested array has an inhomogeneous shape''))"

text \<open>
  \<^verbatim>\<open>
  sequences = []
  for i in range(len(data) - seq_length + 1):
      sequences.append(data[i:i + seq_length])
  return np.array(sequences)
  \<close>
\<close>

definition windows :: "'a list \<Rightarrow> int \<Rightarrow> 'a list list" where
  "windows data seq_length =
     map (\<lambda>i. py_slice data i (i + seq_length))
         (py_range (int (length data) - seq_length + 1))"

definition create_sequences :: "'a list \<Rightarrow> int \<Rightarrow> exc + 'a list list" where
  "create_sequences data seq_length = np_array_rows (windows data seq_length)"

fun astype_float :: "cell list \<Rightarrow> exc + float64 list" where
  "astype_float [] = Inr []"
| "astype_float (Num v # cs) =
     (case astype_float cs of Inl e \<Rightarrow> Inl e | Inr vs \<Rightarrow> Inr (v # vs))"
| "astype_float (NonNumeric t # cs) =
     Inl (Exc ValueError (''could not convert string to float: '' @ t))"

text \<open>
  \<^verbatim>\<open>
  if column is None:
      column = df.columns[0]
  data = df[column].values.reshape(-1, 1).astype(float)
  data = data.flatten()
  normalized_data, min_val, max_val = DatasetLoader.normalize_data(data)
  sequences = DatasetLoader.create_sequences(normalized_data, seq_length)
  return sequences, min_val, max_val
  \<close>
\<close>

definition select_column :: "dataframe \<Rightarrow> string option \<Rightarrow> exc + cell list" where
  "select_column df column =
     (case column of
        None \<Rightarrow>
          (case df of
             [] \<Rightarrow> Inl (Exc IndexError ''index 0 is out of bounds for axis 0 with size 0'')
           | (name, cells) # rest \<Rightarrow> Inr cells)
      | Some name \<Rightarrow>
          (case map_of df name of
             None \<Rightarrow> Inl (Exc KeyError name)
           | Some cells \<Rightarrow> Inr cells))"

definition prepare_data ::
  "('f, 'sc, 'l) lib \<Rightarrow> dataframe \<Rightarrow> int \<Rightarrow> string option
     \<Rightarrow> exc + (float64 list list \<times> float64 \<times> float64)" where
  "prepare_data L df seq_length column =
     (case select_column df column of
        Inl e \<Rightarrow> Inl e
      | Inr cells \<Rightarrow>
          (case astype_float cells of
             Inl e \<Rightarrow> Inl e
           | Inr data \<Rightarrow>
               (case normalize_data L data of
                  Inl e \<Rightarrow> Inl e
                | Inr (normalized_data, min_val, max_val) \<Rightarrow>
                    (case create_sequences normalized_data seq_length of
                       Inl e \<Rightarrow> Inl e
                     | Inr sequences \<Rightarrow> Inr (sequences, min_val, max_val)))))"

section \<open>The file system\<close>

text \<open>
  The file system: the objects persisted by joblib, by path, and the directories, by
  path. \<^verbatim>\<open>os.makedirs(d, exist_ok=True)\<close> registers the path it is given (parents are
  not tracked on their own); writing a file needs its directory registered, or no
  directory part at all.
\<close>

record ('f, 'sc, 'l) world =
  files :: "string \<rightharpoonup> ('f, 'sc, 'l) pyobj"
  dirs :: "string set"

definition dirname :: "string \<Rightarrow> string" where
  "dirname p =
     (let head = rev (dropWhile (\<lambda>c. c \<noteq> CHR ''/'') (rev p))
      in if head \<noteq> [] \<and> (\<exists>c \<in> set head. c \<noteq> CHR ''/'')
         then rev (dropWhile (\<lambda>c. c = CHR ''/'') (rev head))
         else head)"

definition os_path_exists :: "('f, 'sc, 'l) world \<Rightarrow> string \<Rightarrow> bool" where
  "os_path_exists w p = (files w p \<noteq> None \<or> p \<in> dirs w)"

text \<open>The operating system's errors, with the text that \<^verbatim>\<open>str(e)\<close> gives.\<close>

definition file_not_found :: "string \<Rightarrow> exc" where
  "file_not_found p = Exc FileNotFoundError (''[Errno 2] No such file or directory: '' @ p)"

definition file_exists :: "string \<Rightarrow> exc" where
  "file_exists p = Exc FileExistsError (''[Errno 17] File exists: '' @ p)"

definition is_a_directory :: "string \<Rightarrow> exc" where
  "is_a_directory p = Exc IsADirectoryError (''[Errno 21] Is a directory: '' @ p)"

definition os_makedirs :: "('f, 'sc, 'l) world \<Rightarrow> string \<Rightarrow> exc + ('f, 'sc, 'l) world" where
  "os_makedirs w d =
     (if d = [] then Inl (file_not_found d)
      else if files w d \<noteq> None then Inl (file_exists d)
      else Inr (w\<lparr>dirs := insert d (dirs w)\<rparr>))"

definition joblib_dump ::
  "('f, 'sc, 'l) world \<Rightarrow> ('f, 'sc, 'l) pyobj \<Rightarrow> string \<Rightarrow> exc + ('f, 'sc, 'l) world" where
  "joblib_dump w obj p =
     (if p \<in> dirs w then Inl (is_a_directory p)
      else if dirname p \<noteq> [] \<and> dirname p \<notin> dirs w then Inl (file_not_found p)
      else Inr (w\<lparr>files := (files w)(p \<mapsto> obj)\<rparr>))"

definition joblib_load :: "('f, 'sc, 'l) world \<Rightarrow> string \<Rightarrow> exc + ('f, 'sc, 'l) pyobj" where
  "joblib_load w p =
     (case files w p of
        Some obj \<Rightarrow> Inr obj
      | None \<Rightarrow> Inl (if p \<in> dirs w then is_a_directory p else file_not_found p))"

section \<open>model.py: AnomalyDetectionModel\<close>

record ('f, 'sc, 'l) anomaly_model =
  model_path :: string
  scaler_path :: string
  scaler :: "('f, 'sc, 'l) pyobj"
  model :: "('f, 'sc, 'l) pyobj option"
  is_trained :: bool
  threshold :: real

text \<open>
  \<^verbatim>\<open>__init__\<close>: the fields, then \<^verbatim>\<open>os.makedirs(os.path.dirname(model_path), exist_ok=True)\<close>.
\<close>

definition init ::
  "('f, 'sc, 'l) lib \<Rightarrow> ('f, 'sc, 'l) world \<Rightarrow> string \<Rightarrow> string
     \<Rightarrow> exc + (('f, 'sc, 'l) anomaly_model \<times> ('f, 'sc, 'l) world)" where
  "init L w mp sp =
     (case os_makedirs w (dirname mp) of
        Inl e \<Rightarrow> Inl e
      | Inr w' \<Rightarrow>
          Inr (\<lparr>model_path = mp, scaler_path = sp,
                scaler = StandardScaler (scaler_new L), model = None,
                is_trained = False, threshold = 1 / 2\<rparr>, w'))"

text \<open>
  The argument \<^verbatim>\<open>data\<close>: a Python list of numbers, a one- or two-dimensional array,
  or an object with no \<^verbatim>\<open>shape\<close>.
  \<^verbatim>\<open>
  if isinstance(data, list):
      data = np.array(data)
  if len(data.shape) == 1:
      data = data.reshape(-1, 1)
  \<close>
\<close>

datatype pydata = PyList "real list" | Array1 "real list" | Array2 "real list list" | NoShape

fun to_2d :: "pydata \<Rightarrow> exc + real list list" where
  "to_2d (PyList xs) = Inr (map (\<lambda>x. [x]) xs)"
| "to_2d (Array1 xs) = Inr (map (\<lambda>x. [x]) xs)"
| "to_2d (Array2 rows) = Inr rows"
| "to_2d NoShape = Inl (Exc AttributeError ''object has no attribute shape'')"

datatype report =
  TrainSuccess (samples_trained: nat) (mean_score: real) (max_score: real)
               (min_score: real) (timestamp: string)
  | TrainError (message: string) (timestamp: string)

fun status :: "report \<Rightarrow> string" where
  "status (TrainSuccess n mean mx mn ts) = ''success''"
| "status (TrainError m ts) = ''error''"

text \<open>
  The statistics of the report, over the scores: \<^verbatim>\<open>np.mean\<close> of no score is NaN with a
  warning, and \<^verbatim>\<open>np.max\<close> then raises.
\<close>

fun scores_max :: "real list \<Rightarrow> exc + real" where
  "scores_max [] = Inl (Exc ValueError ''zero-size array to reduction operation maximum which has no identity'')"
| "scores_max (x # xs) = Inr (fold max xs x)"

fun scores_min :: "real list \<Rightarrow> exc + real" where
  "scores_min [] = Inl (Exc ValueError ''zero-size array to reduction operation minimum which has no identity'')"
| "scores_min (x # xs) = Inr (fold min xs x)"

definition score_report :: "nat \<Rightarrow> real list \<Rightarrow> string \<Rightarrow> exc + report" where
  "score_report n scores ts =
     (case scores_max scores of
        Inl e \<Rightarrow> Inl e
      | Inr mx \<Rightarrow>
          (case scores_min scores of
             Inl e \<Rightarrow> Inl e
           | Inr mn \<Rightarrow>
               Inr (TrainSuccess n (sum_list scores / real (length scores)) mx mn ts)))"

text \<open>The body of the \<^verbatim>\<open>try\<close> of \<^verbatim>\<open>train\<close>, with the state each exception leaves.\<close>

definition train_body ::
  "('f, 'sc, 'l) lib \<Rightarrow> ('f, 'sc, 'l) anomaly_model \<times> ('f, 'sc, 'l) world \<Rightarrow> pydata \<Rightarrow> real
     \<Rightarrow> (('f, 'sc, 'l) anomaly_model \<times> ('f, 'sc, 'l) world) \<times> (exc + report)" where
  "train_body L sw data contamination =
     (case sw of (s, w) \<Rightarrow>
      (case to_2d data of
         Inl e \<Rightarrow> ((s, w), Inl e)
       | Inr X \<Rightarrow>
           (case obj_fit_transform L (scaler s) X of
              (sc, Inl e) \<Rightarrow> ((s\<lparr>scaler := sc\<rparr>, w), Inl e)
            | (sc, Inr data_scaled) \<Rightarrow>
                (case forest_fit L (forest_new L contamination) data_scaled of
                   (f, Some e) \<Rightarrow>
                     ((s\<lparr>scaler := sc, model := Some (IsolationForest f)\<rparr>, w), Inl e)
                 | (f, None) \<Rightarrow>
                     (let s' = s\<lparr>scaler := sc, model := Some (IsolationForest f),
                                 is_trained := True\<rparr>
                      in case joblib_dump w (IsolationForest f) (model_path s') of
                           Inl e \<Rightarrow> ((s', w), Inl e)
                         | Inr w1 \<Rightarrow>
                             (case joblib_dump w1 sc (scaler_path s') of
                                Inl e \<Rightarrow> ((s', w1), Inl e)
                              | Inr w2 \<Rightarrow>
                                  (case forest_score_samples L f data_scaled of
                                     Inl e \<Rightarrow> ((s', w2), Inl e)
                                   | Inr raw \<Rightarrow>
                                       ((s', w2),
                                        score_report (length X) (map uminus raw) (now L)))))))))"

text \<open>\<^verbatim>\<open>train\<close>: the handler \<^verbatim>\<open>except Exception as e\<close> turns the exception into a report.\<close>

definition train ::
  "('f, 'sc, 'l) lib \<Rightarrow> ('f, 'sc, 'l) anomaly_model \<times> ('f, 'sc, 'l) world \<Rightarrow> pydata \<Rightarrow> real
     \<Rightarrow> (('f, 'sc, 'l) anomaly_model \<times> ('f, 'sc, 'l) world) \<times> (exc + report)" where
  "train L sw data contamination =
     (case train_body L sw data contamination of
        (sw', Inl e) \<Rightarrow> (sw', Inr (TrainError (msg e) (now L)))
      | (sw', Inr r) \<Rightarrow> (sw', Inr r))"

text \<open>
  \<^verbatim>\<open>
  if self.model is None:
      self.model = joblib.load(self.model_path)
      self.scaler = joblib.load(self.scaler_path)
  \<close>
  The result is the object in \<^verbatim>\<open>self.model\<close> afterwards.
\<close>

definition load_if_none ::
  "('f, 'sc, 'l) anomaly_model \<Rightarrow> ('f, 'sc, 'l) world
     \<Rightarrow> ('f, 'sc, 'l) anomaly_model \<times> (exc + ('f, 'sc, 'l) pyobj)" where
  "load_if_none s w =
     (case model s of
        Some m \<Rightarrow> (s, Inr m)
      | None \<Rightarrow>
          (case joblib_load w (model_path s) of
             Inl e \<Rightarrow> (s, Inl e)
           | Inr m \<Rightarrow>
               (case joblib_load w (scaler_path s) of
                  Inl e \<Rightarrow> (s\<lparr>model := Some m\<rparr>, Inl e)
                | Inr sc \<Rightarrow> (s\<lparr>model := Some m, scaler := sc\<rparr>, Inr m))))"

text \<open>
  The body of the \<^verbatim>\<open>try\<close> of \<^verbatim>\<open>predict\<close>, as a function of the scaler and the model
  it reads: \<^verbatim>\<open>labels = [1 if p == -1 else 0 for p in predictions]\<close>.
\<close>

definition predict_body ::
  "('f, 'sc, 'l) lib \<Rightarrow> ('f, 'sc, 'l) pyobj \<Rightarrow> ('f, 'sc, 'l) pyobj \<Rightarrow> pydata
     \<Rightarrow> exc + (real list \<times> int list)" where
  "predict_body L sc m data =
     (case to_2d data of
        Inl e \<Rightarrow> Inl e
      | Inr X \<Rightarrow>
          (case obj_transform L sc X of
             Inl e \<Rightarrow> Inl e
           | Inr data_scaled \<Rightarrow>
               (case obj_scores_predictions L m data_scaled of
                  Inl e \<Rightarrow> Inl e
                | Inr (scores, predictions) \<Rightarrow>
                    Inr (scores, map (\<lambda>p. if p = - 1 then 1 else 0) predictions))))"

definition not_trained :: exc where
  "not_trained = Exc ValueError ''Model not trained. Please train the model first.''"

definition scoring ::
  "('f, 'sc, 'l) lib \<Rightarrow> ('f, 'sc, 'l) pyobj \<Rightarrow> ('f, 'sc, 'l) pyobj \<Rightarrow> pydata
     \<Rightarrow> exc + (real list \<times> int list)" where
  "scoring L sc m data =
     (case predict_body L sc m data of
        Inl e \<Rightarrow> Inl (Exc ValueError (''Error during prediction: '' @ msg e))
      | Inr r \<Rightarrow> Inr r)"

definition predict ::
  "('f, 'sc, 'l) lib \<Rightarrow> ('f, 'sc, 'l) anomaly_model \<Rightarrow> ('f, 'sc, 'l) world \<Rightarrow> pydata
     \<Rightarrow> ('f, 'sc, 'l) anomaly_model \<times> (exc + (real list \<times> int list))" where
  "predict L s w data =
     (if \<not> is_trained s \<and> \<not> os_path_exists w (model_path s) then (s, Inl not_trained)
      else
        (case load_if_none s w of
           (s', Inl e) \<Rightarrow> (s', Inl e)
         | (s', Inr m) \<Rightarrow> (s', scoring L (scaler s') m data)))"

text \<open>
  \<^verbatim>\<open>predict_batch\<close>. The dictionary \<^verbatim>\<open>results\<close> is the list of its entries in insertion
  order, the key \<^verbatim>\<open>sequence_i\<close> written \<open>i\<close>. \<^verbatim>\<open>max(labels)\<close> raises on no label.
\<close>

record entry =
  scores :: "real list"
  labels :: "int list"
  is_anomalous :: bool

datatype batch_report =
  BatchSuccess (predictions: "(nat \<times> entry) list") (batch_timestamp: string)
  | BatchError (batch_message: string) (batch_timestamp: string)

fun batch_status :: "batch_report \<Rightarrow> string" where
  "batch_status (BatchSuccess ps ts) = ''success''"
| "batch_status (BatchError m ts) = ''error''"

fun batch_loop ::
  "('f, 'sc, 'l) lib \<Rightarrow> ('f, 'sc, 'l) anomaly_model \<Rightarrow> ('f, 'sc, 'l) world \<Rightarrow> nat
     \<Rightarrow> real list list \<Rightarrow> (nat \<times> entry) list
     \<Rightarrow> ('f, 'sc, 'l) anomaly_model \<times> (exc + (nat \<times> entry) list)" where
  "batch_loop L s w i [] results = (s, Inr results)"
| "batch_loop L s w i (data_point # rest) results =
     (case predict L s w (Array1 data_point) of
        (s', Inl e) \<Rightarrow> (s', Inl e)
      | (s', Inr (sc, lb)) \<Rightarrow>
          (case lb of
             [] \<Rightarrow> (s', Inl (Exc ValueError ''max() arg is an empty sequence''))
           | l # ls \<Rightarrow>
               batch_loop L s' w (Suc i) rest
                 (results @ [(i, \<lparr>scores = sc, labels = lb,
                                  is_anomalous = (fold max ls l = 1)\<rparr>)])))"

definition predict_batch ::
  "('f, 'sc, 'l) lib \<Rightarrow> ('f, 'sc, 'l) anomaly_model \<Rightarrow> ('f, 'sc, 'l) world \<Rightarrow> real list list
     \<Rightarrow> ('f, 'sc, 'l) anomaly_model \<times> (exc + batch_report)" where
  "predict_batch L s w data_list =
     (case batch_loop L s w 0 data_list [] of
        (s', Inl e) \<Rightarrow> (s', Inr (BatchError (msg e) (now L)))
      | (s', Inr results) \<Rightarrow> (s', Inr (BatchSuccess results (now L))))"

definition set_threshold ::
  "('f, 'sc, 'l) anomaly_model \<Rightarrow> real \<Rightarrow> ('f, 'sc, 'l) anomaly_model \<times> (exc + unit)" where
  "set_threshold s t =
     (if 0 \<le> t \<and> t \<le> 1 then (s\<lparr>threshold := t\<rparr>, Inr ())
      else (s, Inl (Exc ValueError ''Threshold must be between 0 and 1'')))"

text \<open>\<^verbatim>\<open>get_model_info\<close>: the fields of the instance, the type tag and the time.\<close>

record model_info =
  info_is_trained :: bool
  info_model_path :: string
  info_scaler_path :: string
  info_threshold :: real
  info_model_type :: string
  info_timestamp :: string

definition get_model_info :: "('f, 'sc, 'l) lib \<Rightarrow> ('f, 'sc, 'l) anomaly_model \<Rightarrow> model_info" where
  "get_model_info L s =
     \<lparr>info_is_trained = is_trained s, info_model_path = model_path s,
      info_scaler_path = scaler_path s, info_threshold = threshold s,
      info_model_type = ''IsolationForest'', info_timestamp = now L\<rparr>"

section \<open>train_lstm_model.py: the reconstruction trainer\<close>

text \<open>
  \<^verbatim>\<open>
  model = build_lstm_model(seq_length=sequences.shape[1], features=1)
  X_train = sequences.reshape((sequences.shape[0], sequences.shape[1], 1))
  model.fit(X_train, X_train, epochs=epochs, batch_size=batch_size, ...)
  return model
  \<close>
  The array of no window has the shape \<^verbatim>\<open>(0,)\<close>, where \<^verbatim>\<open>shape[1]\<close> raises.
\<close>

definition train_lstm_model ::
  "('f, 'sc, 'l) lib \<Rightarrow> float64 list list \<Rightarrow> nat \<Rightarrow> nat \<Rightarrow> exc + 'l" where
  "train_lstm_model L sequences epochs batch_size =
     (case sequences of
        [] \<Rightarrow> Inl (Exc IndexError ''tuple index out of range'')
      | row # rest \<Rightarrow>
          (case sequential_build L (length row) 1 of
             Inl e \<Rightarrow> Inl e
           | Inr m \<Rightarrow>
               sequential_fit L m (map (map (\<lambda>x. [x])) sequences) epochs batch_size))"

section \<open>model.py: the process-wide instance\<close>

text \<open>
  The global \<^verbatim>\<open>model_instance\<close> is \<open>None\<close> or the one object; a function that changes
  a field of that object returns the global with the field changed.
\<close>

definition default_model_path :: string where
  "default_model_path = ''models/anomaly_model.pkl''"

definition default_scaler_path :: string where
  "default_scaler_path = ''models/scaler.pkl''"

definition get_model ::
  "('f, 'sc, 'l) lib \<Rightarrow> ('f, 'sc, 'l) anomaly_model option \<Rightarrow> ('f, 'sc, 'l) world
     \<Rightarrow> exc + (('f, 'sc, 'l) anomaly_model \<times> ('f, 'sc, 'l) world)" where
  "get_model L model_instance w =
     (case model_instance of
        None \<Rightarrow> init L w default_model_path default_scaler_path
      | Some m \<Rightarrow> Inr (m, w))"

definition load_model ::
  "('f, 'sc, 'l) lib \<Rightarrow> ('f, 'sc, 'l) anomaly_model option \<Rightarrow> ('f, 'sc, 'l) world
     \<Rightarrow> (('f, 'sc, 'l) anomaly_model option \<times> ('f, 'sc, 'l) world)
         \<times> (exc + ('f, 'sc, 'l) anomaly_model)" where
  "load_model L model_instance w =
     (case get_model L model_instance w of
        Inl e \<Rightarrow> ((model_instance, w), Inl e)
      | Inr (m, w') \<Rightarrow>
          (if os_path_exists w' (model_path m) \<and> os_path_exists w' (scaler_path m) then
             (case joblib_load w' (model_path m) of
                Inl e \<Rightarrow> ((Some m, w'), Inl e)
              | Inr mo \<Rightarrow>
                  (case joblib_load w' (scaler_path m) of
                     Inl e \<Rightarrow> ((Some (m\<lparr>model := Some mo\<rparr>), w'), Inl e)
                   | Inr so \<Rightarrow>
                       (let m' = m\<lparr>model := Some mo, scaler := so, is_trained := True\<rparr>
                        in ((Some m', w'), Inr m'))))
           else ((Some m, w'), Inr m)))"

text \<open>The body of the \<^verbatim>\<open>try\<close> of \<^verbatim>\<open>train_with_dataset\<close>.\<close>

definition train_with_dataset_body ::
  "('f, 'sc, 'l) lib \<Rightarrow> ('f, 'sc, 'l) anomaly_model option \<times> ('f, 'sc, 'l) world \<Rightarrow> string
     \<Rightarrow> (('f, 'sc, 'l) anomaly_model option \<times> ('f, 'sc, 'l) world) \<times> (exc + bool)" where
  "train_with_dataset_body L gw csv_path =
     (case gw of (model_instance, w) \<Rightarrow>
      (case read_csv L csv_path of
         Inl e \<Rightarrow> (gw, Inl e)
       | Inr df \<Rightarrow>
           (case prepare_data L df 30 None of
              Inl e \<Rightarrow> (gw, Inl e)
            | Inr (sequences, min_val, max_val) \<Rightarrow>
                (if length sequences = 0 then (gw, Inr False)
                 else
                   (case train_lstm_model L sequences 50 32 of
                      Inl e \<Rightarrow> (gw, Inl e)
                    | Inr lstm_model \<Rightarrow>
                        (case get_model L model_instance w of
                           Inl e \<Rightarrow> (gw, Inl e)
                         | Inr (m, w') \<Rightarrow>
                             ((Some (m\<lparr>model := Some (Sequential lstm_model),
                                        is_trained := True\<rparr>), w'),
                              Inr True)))))))"

text \<open>The \<^verbatim>\<open>try\<close> statement: the handler \<^verbatim>\<open>except Exception as e\<close> turns an exception of
  the body into \<open>False\<close>.\<close>

definition train_with_dataset_try ::
  "('f, 'sc, 'l) lib \<Rightarrow> ('f, 'sc, 'l) anomaly_model option \<times> ('f, 'sc, 'l) world \<Rightarrow> string
     \<Rightarrow> (('f, 'sc, 'l) anomaly_model option \<times> ('f, 'sc, 'l) world) \<times> (exc + bool)" where
  "train_with_dataset_try L gw csv_path =
     (case train_with_dataset_body L gw csv_path of
        (gw', Inl e) \<Rightarrow> (gw', Inr False)
      | (gw', Inr b) \<Rightarrow> (gw', Inr b))"

text \<open>
  \<^verbatim>\<open>train_with_dataset\<close>: the two import statements come first, outside the \<^verbatim>\<open>try\<close>, so
  an exception of theirs reaches the caller.
\<close>

definition train_with_dataset ::
  "('f, 'sc, 'l) lib \<Rightarrow> ('f, 'sc, 'l) anomaly_model option \<times> ('f, 'sc, 'l) world \<Rightarrow> string
     \<Rightarrow> (('f, 'sc, 'l) anomaly_model option \<times> ('f, 'sc, 'l) world) \<times> (exc + bool)" where
  "train_with_dataset L gw csv_path =
     (case import_datasets L of
        Some e \<Rightarrow> (gw, Inl e)
      | None \<Rightarrow>
          (case import_train_lstm_model L of
             Some e \<Rightarrow> (gw, Inl e)
           | None \<Rightarrow> train_with_dataset_try L gw csv_path))"

section \<open>A small library to run the service on\<close>

text \<open>
  An instance of the library parameters that keeps the checks of scikit-learn which the
  service meets: a fit or transform of no sample raises, a transform before the fit
  raises, \<^verbatim>\<open>IsolationForest.fit\<close> raises unless the contamination is in \<open>(0, 0.5]\<close>, and
  scoring before the fit raises. The scaler keeps the mean of the first column; the
  forest marks a row whose scaled value is beyond 10. Its float64 arithmetic is exact on
  finite values and NaN elsewhere: the examples depend on how many values a table has,
  not on the values. Both imports succeed.
\<close>

definition no_sample :: exc where
  "no_sample = Exc ValueError ''Found array with 0 sample(s) while a minimum of 1 is required''"

definition not_fitted :: exc where
  "not_fitted = Exc LibraryError ''This instance is not fitted yet''"

definition bad_contamination :: exc where
  "bad_contamination =
     Exc ValueError ''The contamination parameter of IsolationForest must be a float in the range (0.0, 0.5]''"

definition exact :: "(real \<Rightarrow> real \<Rightarrow> real) \<Rightarrow> float64 \<Rightarrow> float64 \<Rightarrow> float64" where
  "exact f a b = (case (a, b) of (Finite x, Finite y) \<Rightarrow> Finite (f x y) | _ \<Rightarrow> NaN)"

definition ramp :: "float64 list" where
  "ramp = map Finite
     [1, 2, 3, 4, 5, 6, 7, 8, 9, 10, 11, 12, 13, 14, 15, 16,
      17, 18, 19, 20, 21, 22, 23, 24, 25, 26, 27, 28, 29, 30, 31]"

definition demo_lib :: "(real \<times> bool, real option, nat) lib" where
  "demo_lib =
     \<lparr>scaler_new = None,
      scaler_fit = (\<lambda>sc X.
         if X = [] then (None, Some no_sample)
         else (Some (sum_list (map sum_list X) / real (length X)), None)),
      scaler_transform = (\<lambda>sc X.
         case sc of
           None \<Rightarrow> Inl not_fitted
         | Some mean \<Rightarrow> if X = [] then Inl no_sample else Inr (map (map (\<lambda>x. x - mean)) X)),
      forest_new = (\<lambda>c. (c, False)),
      forest_fit = (\<lambda>f X.
         if 0 < fst f \<and> fst f \<le> 1 / 2 then ((fst f, True), None)
         else (f, Some bad_contamination)),
      forest_score_samples = (\<lambda>f X.
         if snd f then Inr (map (\<lambda>row. - \<bar>sum_list row\<bar>) X) else Inl not_fitted),
      forest_predict = (\<lambda>f X.
         if snd f then Inr (map (\<lambda>row. if 10 < \<bar>sum_list row\<bar> then - 1 else 1) X)
         else Inl not_fitted),
      sequential_build = (\<lambda>seq_length features. Inr 0),
      sequential_fit = (\<lambda>m X epochs batch_size. Inr (length X)),
      read_csv = (\<lambda>path.
         if path = ''ramp.csv'' then Inr [(''value'', map Num ramp)]
         else if path = ''short.csv'' then
           Inr [(''value'', map Num [Finite 1, Finite 2, Finite 3])]
         else Inl (file_not_found path)),
      np_minimum = exact min,
      np_maximum = exact max,
      np_subtract = exact (\<lambda>x y. x - y),
      np_add = exact (\<lambda>x y. x + y),
      np_divide = exact (\<lambda>x y. x / y),
      import_datasets = None,
      import_train_lstm_model = None,
      now = ''2024-01-01T00:00:00''\<rparr>"

definition empty_world :: "(real \<times> bool, real option, nat) world" where
  "empty_world = \<lparr>files = Map.empty, dirs = {}\<rparr>"

definition fresh_model :: "(real \<times> bool, real option, nat) anomaly_model" where
  "fresh_model =
     \<lparr>model_path = default_model_path, scaler_path = default_scaler_path,
      scaler = StandardScaler None, model = None, is_trained = False, threshold = 1 / 2\<rparr>"

definition models_world :: "(real \<times> bool, real option, nat) world" where
  "models_world = \<lparr>files = Map.empty, dirs = {''models''}\<rparr>"

definition persisted_world :: "(real \<times> bool, real option, nat) world" where
  "persisted_world =
     \<lparr>files = [default_model_path \<mapsto> IsolationForest (1 / 10, True),
               default_scaler_path \<mapsto> StandardScaler (Some 2)],
      dirs = {''models''}\<rparr>"

definition model_only_world :: "(real \<times> bool, real option, nat) world" where
  "model_only_world =
     \<lparr>files = [default_model_path \<mapsto> IsolationForest (1 / 10, True)],
      dirs = {''models''}\<rparr>"

definition half_loaded_model :: "(real \<times> bool, real option, nat) anomaly_model" where
  "half_loaded_model = fresh_model\<lparr>model := Some (IsolationForest (1 / 10, True))\<rparr>"

definition refit_model :: "(real \<times> bool, real option, nat) anomaly_model" where
  "refit_model =
     fresh_model\<lparr>scaler := StandardScaler (Some 2), model := Some (IsolationForest (9 / 10, False))\<rparr>"

text \<open>
  Any number of calls of \<^verbatim>\<open>predict\<close>, one after the other on the same instance, with
  the result of each.
\<close>

fun predict_all ::
  "('f, 'sc, 'l) lib \<Rightarrow> ('f, 'sc, 'l) anomaly_model \<Rightarrow> ('f, 'sc, 'l) world \<Rightarrow> pydata list
     \<Rightarrow> ('f, 'sc, 'l) anomaly_model \<times> (exc + (real list \<times> int list)) list" where
  "predict_all L s w [] = (s, [])"
| "predict_all L s w (data # rest) =
     (case predict L s w data of
        (s', r) \<Rightarrow> (case predict_all L s' w rest of (s'', rs) \<Rightarrow> (s'', r # rs)))"

definition trained_model :: "(real \<times> bool, real option, nat) anomaly_model" where
  "trained_model =
     fresh_model\<lparr>scaler := StandardScaler (Some 2),
                 model := Some (IsolationForest (1 / 10, True)), is_trained := True\<rparr>"

definition trained_world :: "(real \<times> bool, real option, nat) world" where
  "trained_world =
     \<lparr>files = [default_model_path \<mapsto> IsolationForest (1 / 10, True),
               default_scaler_path \<mapsto> StandardScaler (Some 2)],
      dirs = {''models''}\<rparr>"

definition lstm_singleton :: "(real \<times> bool, real option, nat) anomaly_model" where
  "lstm_singleton = fresh_model\<lparr>model := Some (Sequential 2), is_trained := True\<rparr>"

definition loaded_singleton :: "(real \<times> bool, real option, nat) anomaly_model" where
  "loaded_singleton =
     fresh_model\<lparr>model := Some (IsolationForest (1 / 10, True)),
                 scaler := StandardScaler (Some 2), is_trained := True\<rparr>"



section \<open>Properties of the sequence preparer\<close>

lemma fold_min_Min: "fold min xs (x::real) = Min (set (x # xs))"
  by (simp only: Min.set_eq_fold)

lemma fold_max_Max: "fold max xs (x::real) = Max (set (x # xs))"
  by (simp only: Max.set_eq_fold)

lemma scores_min_Min: "data \<noteq> [] \<Longrightarrow> scores_min data = Inr (Min (set data))"
  by (cases data) (simp_all add: fold_min_Min del: set_simps)

lemma scores_max_Max: "data \<noteq> [] \<Longrightarrow> scores_max data = Inr (Max (set data))"
  by (cases data) (simp_all add: fold_max_Max del: set_simps)

lemma slice_window:
  assumes "i + L \<le> length data"
  shows "py_slice data (int i) (int i + int L) = take L (drop i data)"
  using assms by (simp add: py_slice_def slice_bound_def Let_def nat_add_distrib min_def)

lemma windows_nonneg:
  assumes "L \<le> length data"
  shows "windows data (int L) = map (\<lambda>i. take L (drop i data)) [0 ..< length data - L + 1]"
proof -
  have r: "nat (int (length data) - int L + 1) = length data - L + 1"
    using assms by linarith
  have "map (\<lambda>i. py_slice data i (i + int L)) (map int [0 ..< length data - L + 1])
        = map (\<lambda>i. take L (drop i data)) [0 ..< length data - L + 1]"
    unfolding map_map comp_def
  proof (rule map_cong[OF refl])
    fix i assume "i \<in> set [0 ..< length data - L + 1]"
    then have "i + L \<le> length data" using assms by (simp del: upt_Suc)
    then show "py_slice data (int i) (int i + int L) = take L (drop i data)"
      by (rule slice_window)
  qed
  then show ?thesis
    unfolding windows_def py_range_def r .
qed

lemma windows_too_long: "int (length data) < L \<Longrightarrow> windows data L = []"
  by (simp add: windows_def py_range_def)

text \<open>
  Claim C3. For a series of length \<open>N\<close> and a window length \<open>L\<close> (a length, so
  \<open>0 \<le> L\<close>) with \<open>L \<le> N\<close>, \<^verbatim>\<open>create_sequences\<close> returns exactly \<open>N - L + 1\<close> windows,
  each of length \<open>L\<close>, the \<open>i\<close>-th being the slice \<^verbatim>\<open>series[i:i+L]\<close>, in time order; for
  \<open>L > N\<close> it returns no window and does not raise.
\<close>

theorem create_sequences_windows:
  fixes data :: "'a list" and L :: int
  shows "(0 \<le> L \<and> L \<le> int (length data) \<longrightarrow>
           (\<exists>ws. create_sequences data L = Inr ws
              \<and> int (length ws) = int (length data) - L + 1
              \<and> (\<forall>i < length ws. length (ws ! i) = nat L
                    \<and> ws ! i = take (nat L) (drop i data)
                    \<and> ws ! i = py_slice data (int i) (int i + L))))
       \<and> (int (length data) < L \<longrightarrow> create_sequences data L = Inr [])"
proof (intro conjI impI)
  assume h: "0 \<le> L \<and> L \<le> int (length data)"
  define l where "l = nat L"
  have L: "L = int l" and le: "l \<le> length data" using h by (auto simp: l_def)
  let ?ws = "map (\<lambda>i. take l (drop i data)) [0 ..< length data - l + 1]"
  have w: "windows data L = ?ws" unfolding L by (rule windows_nonneg[OF le])
  have len: "\<forall>r \<in> set ?ws. length r = l" using le by (auto simp del: upt_Suc)
  have hdlen: "length (hd ?ws) = l" using le by (simp add: hd_map upt_rec del: upt_Suc)
  have cs: "create_sequences data L = Inr ?ws"
    unfolding create_sequences_def w np_array_rows_def using len hdlen by simp
  show "\<exists>ws. create_sequences data L = Inr ws
              \<and> int (length ws) = int (length data) - L + 1
              \<and> (\<forall>i < length ws. length (ws ! i) = nat L
                    \<and> ws ! i = take (nat L) (drop i data)
                    \<and> ws ! i = py_slice data (int i) (int i + L))"
  proof (intro exI[of _ ?ws] conjI allI impI)
    show "create_sequences data L = Inr ?ws" by (rule cs)
    show "int (length ?ws) = int (length data) - L + 1" using le by (simp add: L del: upt_Suc)
  next
    fix i assume i: "i < length ?ws"
    then have il: "i + l \<le> length data" using le by (simp del: upt_Suc)
    have nth: "?ws ! i = take l (drop i data)" using i by (simp del: upt_Suc)
    show "length (?ws ! i) = nat L" unfolding nth using il by (simp add: L)
    show "?ws ! i = take (nat L) (drop i data)" unfolding nth by (simp add: L)
    show "?ws ! i = py_slice data (int i) (int i + L)"
      unfolding nth L by (rule slice_window[OF il, symmetric])
  qed
next
  assume "int (length data) < L"
  then show "create_sequences data L = Inr []"
    by (simp add: create_sequences_def windows_too_long np_array_rows_def)
qed

theorem create_sequences_windows_witness:
  "create_sequences [10, 20, 30, 40 :: int] 2 = Inr [[10, 20], [20, 30], [30, 40]]
   \<and> create_sequences [10, 20, 30, 40 :: int] 5 = Inr []"
  using create_sequences_windows[of 2 "[10, 20, 30, 40 :: int]"]
        create_sequences_windows[of 5 "[10, 20, 30, 40 :: int]"]
  by (simp add: create_sequences_def windows_def py_range_def py_slice_def slice_bound_def np_array_rows_def upt_rec)

lemma normalize_data_length:
  assumes "data \<noteq> []"
  shows "\<exists>normalized min_val max_val.
           normalize_data L data = Inr (normalized, min_val, max_val)
         \<and> length normalized = length data"
  using assms by (cases data) (simp_all add: normalize_data_def)

section \<open>Properties of the model\<close>

lemma dirname_default: "dirname default_model_path = ''models''"
  by (simp add: dirname_def default_model_path_def)

lemma init_fields:
  assumes "init L w0 mp sp = Inr (s, w)"
  shows "model s = None" "\<not> is_trained s" "model_path s = mp" "scaler_path s = sp"
        "threshold s = 1 / 2" "scaler s = StandardScaler (scaler_new L)" "files w = files w0"
  using assms by (auto simp: init_def os_makedirs_def split: sum.splits if_splits)

lemma scoring_not_not_trained: "scoring L sc m data \<noteq> Inl not_trained"
  by (simp add: scoring_def not_trained_def split: sum.splits)

lemma predict_guard:
  "\<not> is_trained s \<Longrightarrow> \<not> os_path_exists w (model_path s) \<Longrightarrow> predict L s w data = (s, Inl not_trained)"
  by (simp add: predict_def)

lemma predict_lazy_load:
  assumes "model s = None" "files w (model_path s) = Some mo" "files w (scaler_path s) = Some so"
  shows "predict L s w data = (s\<lparr>model := Some mo, scaler := so\<rparr>, scoring L so mo data)"
  using assms by (simp add: predict_def os_path_exists_def load_if_none_def joblib_load_def)

text \<open>
  Claim C6. On a freshly constructed model, \<^verbatim>\<open>predict\<close> raises the not-trained
  ValueError to its caller when nothing exists at the model path, and leaves the
  instance as it was; when the persisted model and scaler both exist it loads both into
  the instance first and goes on to score, so the not-trained error is not what it
  returns.
\<close>

theorem predict_fresh_model:
  assumes "init L w0 mp sp = Inr (s, w)"
  shows "(\<not> os_path_exists w mp \<longrightarrow> predict L s w data = (s, Inl not_trained))
       \<and> (files w mp = Some mo \<and> files w sp = Some so \<longrightarrow>
            predict L s w data = (s\<lparr>model := Some mo, scaler := so\<rparr>, scoring L so mo data)
          \<and> snd (predict L s w data) \<noteq> Inl not_trained)"
  using init_fields[OF assms] predict_guard[of s w L data]
        predict_lazy_load[of s w mo so L data] scoring_not_not_trained[of L so mo data]
  by auto

lemma init_demo: "init demo_lib empty_world default_model_path default_scaler_path = Inr (fresh_model, models_world)"
  by (simp add: init_def dirname_default os_makedirs_def empty_world_def fresh_model_def models_world_def demo_lib_def)


lemma init_demo_persisted:
  "init demo_lib persisted_world default_model_path default_scaler_path = Inr (fresh_model, persisted_world)"
  unfolding init_def dirname_default
  by (simp add: os_makedirs_def persisted_world_def fresh_model_def demo_lib_def
        default_model_path_def default_scaler_path_def insert_absorb)

theorem predict_fresh_model_witness:
  "predict demo_lib fresh_model models_world (PyList [1, 2, 30]) = (fresh_model, Inl not_trained)
   \<and> predict demo_lib fresh_model persisted_world (PyList [1, 2, 30])
       = (fresh_model\<lparr>model := Some (IsolationForest (1 / 10, True)), scaler := StandardScaler (Some 2)\<rparr>,
          Inr ([1, 0, 28], [0, 0, 1]))"
proof -
  have a: "\<not> os_path_exists models_world default_model_path"
    by (simp add: os_path_exists_def models_world_def default_model_path_def)
  have b: "files persisted_world default_model_path = Some (IsolationForest (1 / 10, True))
         \<and> files persisted_world default_scaler_path = Some (StandardScaler (Some 2))"
    by (simp add: persisted_world_def default_model_path_def default_scaler_path_def)
  have c: "scoring demo_lib (StandardScaler (Some 2)) (IsolationForest (1 / 10, True)) (PyList [1, 2, 30])
           = Inr ([1, 0, 28], [0, 0, 1])"
    by (simp add: scoring_def predict_body_def demo_lib_def)
  show ?thesis
    using predict_fresh_model[OF init_demo, where data = "PyList [1, 2, 30]"] a
          predict_fresh_model[OF init_demo_persisted, where data = "PyList [1, 2, 30]"
            and mo = "IsolationForest (1 / 10, True)" and so = "StandardScaler (Some 2)"] b c
    by simp
qed

text \<open>
  Claim C9, as amended. The guard of \<^verbatim>\<open>predict\<close> looks at the model file only. With
  \<^verbatim>\<open>is_trained\<close> false, a file at the model path and nothing at the scaler path,
  \<^verbatim>\<open>predict\<close> never raises the not-trained error. When no model is in memory it loads
  the model file into the instance and the load of the scaler raises FileNotFoundError;
  when a model is already in memory it loads nothing and scores with the objects the
  instance holds.
\<close>

theorem predict_guard_model_file_only:
  assumes "\<not> is_trained s" "files w (model_path s) = Some mo" "\<not> os_path_exists w (scaler_path s)"
  shows "snd (predict L s w data) \<noteq> Inl not_trained
       \<and> (model s = None \<longrightarrow>
            predict L s w data
              = (s\<lparr>model := Some mo\<rparr>, Inl (file_not_found (scaler_path s))))
       \<and> (\<forall>m. model s = Some m \<longrightarrow> predict L s w data = (s, scoring L (scaler s) m data))"
proof (intro conjI impI allI)
  have ex: "os_path_exists w (model_path s)" using assms(2) by (simp add: os_path_exists_def)
  have nosc: "files w (scaler_path s) = None" "scaler_path s \<notin> dirs w"
    using assms(3) by (auto simp: os_path_exists_def)
  show "snd (predict L s w data) \<noteq> Inl not_trained"
    using ex assms(2) nosc scoring_not_not_trained[of L "scaler s" _ data]
    by (auto simp: predict_def load_if_none_def joblib_load_def not_trained_def file_not_found_def
          split: option.splits)
  show "predict L s w data = (s\<lparr>model := Some mo\<rparr>, Inl (file_not_found (scaler_path s)))"
    if "model s = None"
    using that ex assms(2) nosc by (simp add: predict_def load_if_none_def joblib_load_def)
  show "predict L s w data = (s, scoring L (scaler s) m data)" if "model s = Some m" for m
    using that ex by (simp add: predict_def load_if_none_def)
qed

theorem predict_guard_model_file_only_witness:
  "predict demo_lib fresh_model model_only_world (PyList [1])
     = (half_loaded_model, Inl (file_not_found default_scaler_path))"
proof -
  have a: "\<not> is_trained fresh_model" "model fresh_model = None"
    "model_path fresh_model = default_model_path" "scaler_path fresh_model = default_scaler_path"
    by (simp_all add: fresh_model_def)
  have b: "files model_only_world (model_path fresh_model) = Some (IsolationForest (1 / 10, True))"
    by (simp add: model_only_world_def a)
  have c: "\<not> os_path_exists model_only_world (scaler_path fresh_model)"
    by (simp add: os_path_exists_def model_only_world_def a default_model_path_def default_scaler_path_def)
  show ?thesis
    using predict_guard_model_file_only[OF a(1) b c, of demo_lib "PyList [1]"] a
    by (simp add: half_loaded_model_def)
qed

text \<open>
  The instance that the failed load leaves (\<^verbatim>\<open>is_trained\<close> false, the model in memory)
  meets the conditions of claim C9 as it was stated, and \<^verbatim>\<open>predict\<close> on it attempts no
  load: the error is the prediction error of the unfitted scaler.
\<close>

theorem predict_second_call_counterexample:
  "\<not> is_trained half_loaded_model
   \<and> files model_only_world (model_path half_loaded_model) \<noteq> None
   \<and> files model_only_world (scaler_path half_loaded_model) = None
   \<and> predict demo_lib half_loaded_model model_only_world (PyList [1])
       = (half_loaded_model,
          Inl (Exc ValueError ''Error during prediction: This instance is not fitted yet''))"
  by (simp add: half_loaded_model_def fresh_model_def model_only_world_def default_model_path_def
        default_scaler_path_def predict_def os_path_exists_def load_if_none_def scoring_def
        predict_body_def demo_lib_def not_fitted_def)

lemma train_never_Inl: "snd (train L sw data c) \<noteq> Inl e"
  by (simp add: train_def split: prod.splits sum.splits)

lemma train_forest_rejects:
  assumes "to_2d data = Inr X" "obj_fit_transform L (scaler s) X = (sc, Inr data_scaled)"
          "forest_fit L (forest_new L c) data_scaled = (f, Some e)"
  shows "train L (s, w) data c
           = ((s\<lparr>scaler := sc, model := Some (IsolationForest f)\<rparr>, w),
              Inr (TrainError (msg e) (now L)))"
  using assms by (simp add: train_def train_body_def)

text \<open>
  Claim C7, as amended. \<^verbatim>\<open>set_threshold t\<close> succeeds exactly for \<open>t\<close> in \<open>[0, 1]\<close>, both
  ends included, and otherwise raises ValueError with the stored threshold unchanged.
  \<^verbatim>\<open>train\<close> has no check of the contamination: it never raises, and when the fit of
  the forest rejects its parameters the scaler has been refitted and \<^verbatim>\<open>self.model\<close>
  replaced, the rejection coming back as a report with status error.
\<close>

theorem threshold_and_contamination_checks:
  "(0 \<le> t \<and> t \<le> 1 \<longrightarrow> set_threshold s t = (s\<lparr>threshold := t\<rparr>, Inr ()))
   \<and> (\<not> (0 \<le> t \<and> t \<le> 1) \<longrightarrow>
        set_threshold s t = (s, Inl (Exc ValueError ''Threshold must be between 0 and 1'')))
   \<and> snd (set_threshold s 0) = Inr () \<and> snd (set_threshold s 1) = Inr ()
   \<and> snd (set_threshold s (- 1 / 10)) = Inl (Exc ValueError ''Threshold must be between 0 and 1'')
   \<and> snd (set_threshold s (3 / 2)) = Inl (Exc ValueError ''Threshold must be between 0 and 1'')
   \<and> (\<forall>e. snd (train L (s, w) data c) \<noteq> Inl e)
   \<and> (\<forall>X sc data_scaled f e.
         to_2d data = Inr X \<and> obj_fit_transform L (scaler s) X = (sc, Inr data_scaled)
         \<and> forest_fit L (forest_new L c) data_scaled = (f, Some e) \<longrightarrow>
         train L (s, w) data c
           = ((s\<lparr>scaler := sc, model := Some (IsolationForest f)\<rparr>, w),
              Inr (TrainError (msg e) (now L))))"
  using train_never_Inl[of L "(s, w)" data c] train_forest_rejects[of data _ L s _ _ c _ _ w]
  by (auto simp: set_threshold_def)

theorem threshold_and_contamination_checks_witness:
  "set_threshold fresh_model (7 / 10) = (fresh_model\<lparr>threshold := 7 / 10\<rparr>, Inr ())
   \<and> set_threshold fresh_model 2 = (fresh_model, Inl (Exc ValueError ''Threshold must be between 0 and 1''))
   \<and> train demo_lib (fresh_model, models_world) (PyList [1, 2, 3]) (9 / 10)
       = ((refit_model, models_world), Inr (TrainError (msg bad_contamination) (now demo_lib)))"
proof -
  have a: "to_2d (PyList [1, 2, 3]) = Inr [[1], [2], [3]]" by simp
  have b: "obj_fit_transform demo_lib (scaler fresh_model) [[1], [2], [3]]
             = (StandardScaler (Some 2), Inr [[- 1], [0], [1]])"
    by (simp add: fresh_model_def demo_lib_def)
  have c: "forest_fit demo_lib (forest_new demo_lib (9 / 10)) [[- 1], [0], [1]]
             = ((9 / 10, False), Some bad_contamination)"
    by (simp add: demo_lib_def)
  note T = threshold_and_contamination_checks[of "7 / 10" fresh_model demo_lib models_world "PyList [1, 2, 3]" "9 / 10"]
  note U = threshold_and_contamination_checks[of 2 fresh_model demo_lib models_world "PyList [1, 2, 3]" "9 / 10"]
  have t1: "set_threshold fresh_model (7 / 10) = (fresh_model\<lparr>threshold := 7 / 10\<rparr>, Inr ())"
    using T by simp
  have t2: "set_threshold fresh_model 2 = (fresh_model, Inl (Exc ValueError ''Threshold must be between 0 and 1''))"
    using U by simp
  have t3: "train demo_lib (fresh_model, models_world) (PyList [1, 2, 3]) (9 / 10)
       = ((fresh_model\<lparr>scaler := StandardScaler (Some 2), model := Some (IsolationForest (9 / 10, False))\<rparr>,
           models_world), Inr (TrainError (msg bad_contamination) (now demo_lib)))"
    using T a b c by blast
  show ?thesis using t1 t2 t3 by (simp add: refit_model_def)
qed

text \<open>
  Claim C7 as stated fails for \<^verbatim>\<open>train\<close>: with the contamination \<open>0.9\<close>, outside
  \<open>[0, 0.5]\<close>, the call is not rejected at the boundary; it returns a report, and the
  scaler and the model of the instance have changed.
\<close>

theorem train_contamination_counterexample:
  "\<not> (0 \<le> (9 / 10 :: real) \<and> (9 / 10 :: real) \<le> 1 / 2)
   \<and> train demo_lib (fresh_model, models_world) (PyList [1, 2, 3]) (9 / 10)
       = ((refit_model, models_world),
          Inr (TrainError ''The contamination parameter of IsolationForest must be a float in the range (0.0, 0.5]''
                 ''2024-01-01T00:00:00''))
   \<and> scaler refit_model \<noteq> scaler fresh_model
   \<and> model refit_model \<noteq> model fresh_model"
  by (simp add: train_def train_body_def refit_model_def fresh_model_def demo_lib_def bad_contamination_def)

lemma score_report_Inr:
  assumes "score_report n scs ts = Inr r"
  shows "scs \<noteq> [] \<and> r = TrainSuccess n (sum_list scs / real (length scs)) (Max (set scs)) (Min (set scs)) ts"
proof (cases scs)
  case Nil
  with assms show ?thesis by (simp add: score_report_def)
next
  case (Cons x xs)
  then have ne: "scs \<noteq> []" by simp
  show ?thesis
    using assms ne by (simp add: score_report_def scores_min_Min[OF ne] scores_max_Max[OF ne])
qed

lemma train_body_Inr:
  assumes "train_body L (s, w) data c = (sw', Inr r)"
  shows "\<exists>X sc data_scaled f w1 w2 raw.
           to_2d data = Inr X
         \<and> obj_fit_transform L (scaler s) X = (sc, Inr data_scaled)
         \<and> forest_fit L (forest_new L c) data_scaled = (f, None)
         \<and> joblib_dump w (IsolationForest f) (model_path s) = Inr w1
         \<and> joblib_dump w1 sc (scaler_path s) = Inr w2
         \<and> forest_score_samples L f data_scaled = Inr raw
         \<and> score_report (length X) (map uminus raw) (now L) = Inr r
         \<and> sw' = (s\<lparr>scaler := sc, model := Some (IsolationForest f), is_trained := True\<rparr>, w2)"
  using assms unfolding train_body_def
  by (auto simp: Let_def split: sum.splits prod.splits option.splits)

lemma joblib_dump_files:
  "joblib_dump w obj p = Inr w' \<Longrightarrow> files w' = (files w)(p \<mapsto> obj) \<and> dirs w' = dirs w"
  by (auto simp: joblib_dump_def split: if_splits)

lemma to_2d_PyList: "to_2d (PyList xs) = Inr X \<Longrightarrow> length X = length xs"
  by auto

lemma train_body_Inl:
  "train_body L sw data c = (sw', Inl e) \<Longrightarrow> train L sw data c = (sw', Inr (TrainError (msg e) (now L)))"
  by (simp add: train_def)

lemma train_body_Inr_train:
  "train_body L sw data c = (sw', Inr r) \<Longrightarrow> train L sw data c = (sw', Inr r)"
  by (simp add: train_def)

lemma train_total: "\<exists>sw' rep. train L sw data c = (sw', Inr rep)"
  by (cases "train_body L sw data c") (auto simp: train_def split: sum.splits)

lemma train_body_success_report:
  assumes "train_body L (s, w) data c = (sw', Inr r)"
  shows "status r = ''success'' \<and> is_trained (fst sw')
       \<and> (\<exists>X data_scaled f raw.
             to_2d data = Inr X \<and> samples_trained r = length X
           \<and> obj_fit_transform L (scaler s) X = (scaler (fst sw'), Inr data_scaled)
           \<and> model (fst sw') = Some (IsolationForest f)
           \<and> files (snd sw') (scaler_path s) = Some (scaler (fst sw'))
           \<and> (model_path s \<noteq> scaler_path s \<longrightarrow>
                files (snd sw') (model_path s) = Some (IsolationForest f))
           \<and> forest_score_samples L f data_scaled = Inr raw \<and> raw \<noteq> []
           \<and> mean_score r = sum_list (map uminus raw) / real (length raw)
           \<and> max_score r = Max (set (map uminus raw))
           \<and> min_score r = Min (set (map uminus raw))
           \<and> timestamp r = now L)
       \<and> (\<forall>xs. data = PyList xs \<longrightarrow> samples_trained r = length xs)"
proof -
  from train_body_Inr[OF assms] obtain X sc data_scaled f w1 w2 raw where
    X: "to_2d data = Inr X"
    and ft: "obj_fit_transform L (scaler s) X = (sc, Inr data_scaled)"
    and d1: "joblib_dump w (IsolationForest f) (model_path s) = Inr w1"
    and d2: "joblib_dump w1 sc (scaler_path s) = Inr w2"
    and sc: "forest_score_samples L f data_scaled = Inr raw"
    and rep: "score_report (length X) (map uminus raw) (now L) = Inr r"
    and sw: "sw' = (s\<lparr>scaler := sc, model := Some (IsolationForest f), is_trained := True\<rparr>, w2)"
    by blast
  from score_report_Inr[OF rep] have raw: "raw \<noteq> []"
    and r: "r = TrainSuccess (length X) (sum_list (map uminus raw) / real (length (map uminus raw)))
                  (Max (set (map uminus raw))) (Min (set (map uminus raw))) (now L)"
    by simp_all
  have f2: "files w2 = (files w1)(scaler_path s \<mapsto> sc)" using joblib_dump_files[OF d2] by simp
  have f1: "files w1 = (files w)(model_path s \<mapsto> IsolationForest f)" using joblib_dump_files[OF d1] by simp
  have st: "status r = ''success''" by (subst r) simp
  have n: "samples_trained r = length X" by (subst r) simp
  have m: "mean_score r = sum_list (map uminus raw) / real (length raw)" by (subst r) simp
  have mx: "max_score r = Max (set (map uminus raw))" by (subst r) simp
  have mn: "min_score r = Min (set (map uminus raw))" by (subst r) simp
  have ts: "timestamp r = now L" by (subst r) simp
  have pl: "\<forall>xs. data = PyList xs \<longrightarrow> samples_trained r = length xs"
    using X n by auto
  show ?thesis
    using st n m mx mn ts pl X ft sc raw
    by (auto simp: sw f1 f2)
qed

text \<open>
  Claim C5. \<^verbatim>\<open>train\<close> never raises: it always returns a report. When the body of its
  \<^verbatim>\<open>try\<close> completes, the trained flag is set, the fitted forest and scaler are in the
  instance and in the files at the two paths, and the report has status success, the
  number of samples (the length of a list given as data), the mean, maximum and minimum
  of the negated scores of the training data, and the timestamp. When any step raises,
  the report has status error and the message of the exception.
\<close>

theorem train_never_raises:
  "(\<exists>sw' rep. train L (s, w) data c = (sw', Inr rep)
        \<and> (status rep = ''success'' \<or> status rep = ''error''))
   \<and> (\<forall>sw' r. train_body L (s, w) data c = (sw', Inr r) \<longrightarrow>
         train L (s, w) data c = (sw', Inr r)
       \<and> status r = ''success'' \<and> is_trained (fst sw')
       \<and> (\<exists>X data_scaled f raw.
             to_2d data = Inr X \<and> samples_trained r = length X
           \<and> obj_fit_transform L (scaler s) X = (scaler (fst sw'), Inr data_scaled)
           \<and> model (fst sw') = Some (IsolationForest f)
           \<and> files (snd sw') (scaler_path s) = Some (scaler (fst sw'))
           \<and> (model_path s \<noteq> scaler_path s \<longrightarrow>
                files (snd sw') (model_path s) = Some (IsolationForest f))
           \<and> forest_score_samples L f data_scaled = Inr raw \<and> raw \<noteq> []
           \<and> mean_score r = sum_list (map uminus raw) / real (length raw)
           \<and> max_score r = Max (set (map uminus raw))
           \<and> min_score r = Min (set (map uminus raw))
           \<and> timestamp r = now L)
       \<and> (\<forall>xs. data = PyList xs \<longrightarrow> samples_trained r = length xs))
   \<and> (\<forall>sw' e. train_body L (s, w) data c = (sw', Inl e) \<longrightarrow>
         train L (s, w) data c = (sw', Inr (TrainError (msg e) (now L)))
       \<and> status (TrainError (msg e) (now L)) = ''error'')"
proof (intro conjI allI impI)
  obtain sw' res where b: "train_body L (s, w) data c = (sw', res)" by (cases "train_body L (s, w) data c") auto
  show "\<exists>sw' rep. train L (s, w) data c = (sw', Inr rep) \<and> (status rep = ''success'' \<or> status rep = ''error'')"
  proof (cases res)
    case (Inl e)
    then show ?thesis using train_body_Inl[of L "(s, w)" data c sw' e] b by simp
  next
    case (Inr r)
    then show ?thesis
      using train_body_Inr_train[of L "(s, w)" data c sw' r] train_body_success_report[of L s w data c sw' r] b
      by simp
  qed
next
  fix sw' r assume a: "train_body L (s, w) data c = (sw', Inr r)"
  show "train L (s, w) data c = (sw', Inr r)" by (rule train_body_Inr_train[OF a])
  note R = train_body_success_report[OF a]
  show "status r = ''success''" using R by blast
  show "is_trained (fst sw')" using R by blast
  show "\<exists>X data_scaled f raw.
             to_2d data = Inr X \<and> samples_trained r = length X
           \<and> obj_fit_transform L (scaler s) X = (scaler (fst sw'), Inr data_scaled)
           \<and> model (fst sw') = Some (IsolationForest f)
           \<and> files (snd sw') (scaler_path s) = Some (scaler (fst sw'))
           \<and> (model_path s \<noteq> scaler_path s \<longrightarrow>
                files (snd sw') (model_path s) = Some (IsolationForest f))
           \<and> forest_score_samples L f data_scaled = Inr raw \<and> raw \<noteq> []
           \<and> mean_score r = sum_list (map uminus raw) / real (length raw)
           \<and> max_score r = Max (set (map uminus raw))
           \<and> min_score r = Min (set (map uminus raw))
           \<and> timestamp r = now L" using R by blast
  fix xs assume "data = PyList xs"
  then show "samples_trained r = length xs" using R by blast
next
  fix sw' e assume a: "train_body L (s, w) data c = (sw', Inl e)"
  show "train L (s, w) data c = (sw', Inr (TrainError (msg e) (now L)))" by (rule train_body_Inl[OF a])
  show "status (TrainError (msg e) (now L)) = ''error''" by simp
qed


lemma dirname_default_scaler: "dirname default_scaler_path = ''models''"
  by (simp add: dirname_def default_scaler_path_def)

lemma train_body_demo:
  "train_body demo_lib (fresh_model, models_world) (PyList [1, 2, 3]) (1 / 10)
     = ((trained_model, trained_world), Inr (TrainSuccess 3 (2 / 3) 1 0 ''2024-01-01T00:00:00''))"
proof -
  have d1: "joblib_dump models_world (IsolationForest (1 / 10, True)) default_model_path
              = Inr (models_world\<lparr>files := [default_model_path \<mapsto> IsolationForest (1 / 10, True)]\<rparr>)"
    unfolding joblib_dump_def dirname_default
    by (simp add: models_world_def default_model_path_def)
  have d2: "joblib_dump (models_world\<lparr>files := [default_model_path \<mapsto> IsolationForest (1 / 10, True)]\<rparr>)
              (StandardScaler (Some 2)) default_scaler_path = Inr trained_world"
    unfolding joblib_dump_def dirname_default_scaler
    by (simp add: models_world_def trained_world_def default_scaler_path_def)
  have sr: "score_report n [1, 0, 1] ''2024-01-01T00:00:00''
              = Inr (TrainSuccess n (2 / 3) 1 0 ''2024-01-01T00:00:00'')" for n
    by (simp add: score_report_def)
  have paths: "model_path fresh_model = default_model_path" "scaler_path fresh_model = default_scaler_path"
    "model_path trained_model = default_model_path" "scaler_path trained_model = default_scaler_path"
    by (simp_all add: fresh_model_def trained_model_def)
  have ft: "obj_fit_transform demo_lib (scaler fresh_model) [[1], [2], [3]]
             = (StandardScaler (Some 2), Inr [[- 1], [0], [1]])"
    by (simp add: fresh_model_def demo_lib_def)
  have ff: "forest_fit demo_lib (forest_new demo_lib (1 / 10)) [[- 1], [0], [1]] = ((1 / 10, True), None)"
    by (simp add: demo_lib_def)
  have ss: "forest_score_samples demo_lib (1 / 10, True) [[- 1], [0], [1]] = Inr [- 1, 0, - 1]"
    by (simp add: demo_lib_def)
  have nw: "now demo_lib = ''2024-01-01T00:00:00''" by (simp add: demo_lib_def)
  have st: "fresh_model\<lparr>scaler := StandardScaler (Some 2), model := Some (IsolationForest (1 / 10, True)),
                        is_trained := True\<rparr> = trained_model"
    by (simp add: trained_model_def)
  show ?thesis
    unfolding train_body_def
    by (simp add: ft ff ss nw paths d1 d2 sr st Let_def)
qed

theorem train_never_raises_witness:
  "train demo_lib (fresh_model, models_world) (PyList [1, 2, 3]) (1 / 10)
     = ((trained_model, trained_world), Inr (TrainSuccess 3 (2 / 3) 1 0 ''2024-01-01T00:00:00''))
   \<and> train demo_lib (fresh_model, models_world) NoShape (1 / 10)
     = ((fresh_model, models_world),
        Inr (TrainError ''object has no attribute shape'' ''2024-01-01T00:00:00''))"
proof -
  have e: "train_body demo_lib (fresh_model, models_world) NoShape (1 / 10)
             = ((fresh_model, models_world), Inl (Exc AttributeError ''object has no attribute shape''))"
    by (simp add: train_body_def)
  have nw: "now demo_lib = ''2024-01-01T00:00:00''" by (simp add: demo_lib_def)
  have a: "train demo_lib (fresh_model, models_world) (PyList [1, 2, 3]) (1 / 10)
     = ((trained_model, trained_world), Inr (TrainSuccess 3 (2 / 3) 1 0 ''2024-01-01T00:00:00''))"
    using train_never_raises[of demo_lib fresh_model models_world "PyList [1, 2, 3]" "1 / 10"] train_body_demo
    by blast
  have b: "train demo_lib (fresh_model, models_world) NoShape (1 / 10)
     = ((fresh_model, models_world),
        Inr (TrainError (msg (Exc AttributeError ''object has no attribute shape'')) (now demo_lib)))"
    using train_never_raises[of demo_lib fresh_model models_world NoShape "1 / 10"] e
    by blast
  show ?thesis using a b nw by simp
qed

lemma predict_loaded:
  "model s = Some m \<Longrightarrow> is_trained s \<Longrightarrow> predict L s w data = (s, scoring L (scaler s) m data)"
  by (simp add: predict_def load_if_none_def)

lemma predict_all_loaded:
  "model s = Some m \<Longrightarrow> is_trained s \<Longrightarrow>
   predict_all L s w ds = (s, map (\<lambda>d. snd (predict L s w d)) ds)"
  by (induction ds) (simp_all add: predict_loaded)

lemma scoring_fitted:
  "scoring L (StandardScaler sc) (IsolationForest f) d =
     (case to_2d d of
        Inl e \<Rightarrow> Inl (Exc ValueError (''Error during prediction: '' @ msg e))
      | Inr X \<Rightarrow>
          (case scaler_transform L sc X of
             Inl e \<Rightarrow> Inl (Exc ValueError (''Error during prediction: '' @ msg e))
           | Inr data_scaled \<Rightarrow>
               (case forest_score_samples L f data_scaled of
                  Inl e \<Rightarrow> Inl (Exc ValueError (''Error during prediction: '' @ msg e))
                | Inr raw \<Rightarrow>
                    (case forest_predict L f data_scaled of
                       Inl e \<Rightarrow> Inl (Exc ValueError (''Error during prediction: '' @ msg e))
                     | Inr ps \<Rightarrow>
                         Inr (map uminus raw,
                              map (\<lambda>p. if p = - 1 then 1 else 0) ps)))))"
  by (simp add: scoring_def predict_body_def split: sum.splits)

lemma obj_fit_transform_Inr:
  assumes "obj_fit_transform L obj X = (obj', Inr data_scaled)"
  shows "\<exists>sc0 sc. obj = StandardScaler sc0 \<and> scaler_fit L sc0 X = (sc, None)
                \<and> obj' = StandardScaler sc \<and> scaler_transform L sc X = Inr data_scaled"
  using assms by (cases obj) (auto split: prod.splits option.splits)

lemma train_success_body:
  assumes "train L sw data c = (sw', Inr rep)" "status rep = ''success''"
  shows "train_body L sw data c = (sw', Inr rep)"
  using assms by (auto simp: train_def split: prod.splits sum.splits)

text \<open>
  No operation but \<^verbatim>\<open>train\<close> calls the fit of the scaler: each of the others gives the
  same result whatever that fit is.
\<close>

lemma obj_transform_no_fit:
  "obj_transform (L\<lparr>scaler_fit := g\<rparr>) obj X = obj_transform L obj X"
  by (cases obj) simp_all

lemma obj_scores_predictions_no_fit:
  "obj_scores_predictions (L\<lparr>scaler_fit := g\<rparr>) obj X = obj_scores_predictions L obj X"
  by (cases obj) (simp_all cong: sum.case_cong)

lemma scoring_no_fit: "scoring (L\<lparr>scaler_fit := g\<rparr>) sc m d = scoring L sc m d"
  by (simp add: scoring_def predict_body_def obj_transform_no_fit obj_scores_predictions_no_fit
        cong: sum.case_cong)

lemma predict_no_fit: "predict (L\<lparr>scaler_fit := g\<rparr>) s w d = predict L s w d"
  by (simp add: predict_def scoring_no_fit cong: sum.case_cong prod.case_cong)

lemma batch_loop_no_fit:
  "batch_loop (L\<lparr>scaler_fit := g\<rparr>) s w i ds acc = batch_loop L s w i ds acc"
  by (induction ds arbitrary: s i acc)
     (simp_all add: predict_no_fit cong: sum.case_cong prod.case_cong list.case_cong)

lemma predict_batch_no_fit:
  "predict_batch (L\<lparr>scaler_fit := g\<rparr>) s w ds = predict_batch L s w ds"
  by (simp add: predict_batch_def batch_loop_no_fit cong: sum.case_cong prod.case_cong)

lemma get_model_no_fit: "get_model (L\<lparr>scaler_fit := g\<rparr>) mi w = get_model L mi w"
  by (simp add: get_model_def init_def cong: sum.case_cong option.case_cong)

lemma load_model_no_fit: "load_model (L\<lparr>scaler_fit := g\<rparr>) mi w = load_model L mi w"
  by (simp add: load_model_def get_model_no_fit)

lemma np_min_no_fit: "np_min (L\<lparr>scaler_fit := g\<rparr>) data = np_min L data"
  by (cases data) simp_all

lemma np_max_no_fit: "np_max (L\<lparr>scaler_fit := g\<rparr>) data = np_max L data"
  by (cases data) simp_all

lemma prepare_data_no_fit:
  "prepare_data (L\<lparr>scaler_fit := g\<rparr>) df n column = prepare_data L df n column"
  by (simp add: prepare_data_def normalize_data_def np_min_no_fit np_max_no_fit
        cong: sum.case_cong)

lemma train_lstm_model_no_fit:
  "train_lstm_model (L\<lparr>scaler_fit := g\<rparr>) sequences epochs batch_size
     = train_lstm_model L sequences epochs batch_size"
  by (simp add: train_lstm_model_def cong: sum.case_cong list.case_cong)

lemma train_with_dataset_no_fit:
  "train_with_dataset (L\<lparr>scaler_fit := g\<rparr>) gw p = train_with_dataset L gw p"
  by (simp add: train_with_dataset_def train_with_dataset_try_def train_with_dataset_body_def
        prepare_data_no_fit
        train_lstm_model_no_fit get_model_no_fit
        cong: sum.case_cong option.case_cong prod.case_cong if_cong)

lemma predict_keeps_or_loads:
  "scaler (fst (predict L s w d)) = scaler s
   \<or> (model s = None \<and> files w (scaler_path s) = Some (scaler (fst (predict L s w d))))"
  by (auto simp: predict_def load_if_none_def joblib_load_def split: option.splits)

text \<open>
  Claim C1. \<^verbatim>\<open>train\<close> is the only operation that fits the scaler: \<^verbatim>\<open>predict\<close>,
  \<^verbatim>\<open>predict_batch\<close>, \<^verbatim>\<open>load_model\<close>, \<^verbatim>\<open>train_with_dataset\<close> and \<^verbatim>\<open>get_model_info\<close> give
  the same result whatever the scaler's fit is, in every state, \<^verbatim>\<open>set_threshold\<close> keeps
  the scaler, and \<^verbatim>\<open>predict\<close> leaves in the instance the scaler it found or the one it
  loaded from the scaler file. After a \<^verbatim>\<open>train\<close> that reports success the scaler is the
  one the fit gave on the training data, and the forest was fitted on that scaler's
  transform of the training data. Every later \<^verbatim>\<open>predict\<close> leaves the whole instance as
  \<^verbatim>\<open>train\<close> left it, for any number of calls, and its result is the forest's scores and
  labels on the transform, by that same scaler, of the data given: on the training data
  itself, the scores of the data the forest was fitted on.
\<close>

theorem predict_uses_fitted_scaler:
  assumes "train L (s, w) data c = ((s', w'), Inr rep)" and "status rep = ''success''"
  shows "(\<exists>sc0 sc f X data_scaled.
            scaler s = StandardScaler sc0 \<and> to_2d data = Inr X
          \<and> scaler_fit L sc0 X = (sc, None)
          \<and> scaler_transform L sc X = Inr data_scaled
          \<and> forest_fit L (forest_new L c) data_scaled = (f, None)
          \<and> scaler s' = StandardScaler sc \<and> model s' = Some (IsolationForest f) \<and> is_trained s'
          \<and> (\<forall>w'' d. predict L s' w'' d =
                (s',
                 case to_2d d of
                   Inl e \<Rightarrow> Inl (Exc ValueError (''Error during prediction: '' @ msg e))
                 | Inr X' \<Rightarrow>
                     (case scaler_transform L sc X' of
                        Inl e \<Rightarrow> Inl (Exc ValueError (''Error during prediction: '' @ msg e))
                      | Inr scaled \<Rightarrow>
                          (case forest_score_samples L f scaled of
                             Inl e \<Rightarrow> Inl (Exc ValueError (''Error during prediction: '' @ msg e))
                           | Inr raw \<Rightarrow>
                               (case forest_predict L f scaled of
                                  Inl e \<Rightarrow>
                                    Inl (Exc ValueError (''Error during prediction: '' @ msg e))
                                | Inr ps \<Rightarrow>
                                    Inr (map uminus raw,
                                         map (\<lambda>p. if p = - 1 then 1 else 0) ps))))))
          \<and> (\<forall>w''. snd (predict L s' w'' data) =
                (case forest_score_samples L f data_scaled of
                   Inl e \<Rightarrow> Inl (Exc ValueError (''Error during prediction: '' @ msg e))
                 | Inr raw \<Rightarrow>
                     (case forest_predict L f data_scaled of
                        Inl e \<Rightarrow> Inl (Exc ValueError (''Error during prediction: '' @ msg e))
                      | Inr ps \<Rightarrow>
                          Inr (map uminus raw,
                               map (\<lambda>p. if p = - 1 then 1 else 0) ps))))
          \<and> (\<forall>w'' ds. predict_all L s' w'' ds = (s', map (\<lambda>d. snd (predict L s' w'' d)) ds)))
       \<and> (\<forall>g s0 w0 d. predict (L\<lparr>scaler_fit := g\<rparr>) s0 w0 d = predict L s0 w0 d)
       \<and> (\<forall>g s0 w0 ds. predict_batch (L\<lparr>scaler_fit := g\<rparr>) s0 w0 ds = predict_batch L s0 w0 ds)
       \<and> (\<forall>g mi w0. load_model (L\<lparr>scaler_fit := g\<rparr>) mi w0 = load_model L mi w0)
       \<and> (\<forall>g gw p. train_with_dataset (L\<lparr>scaler_fit := g\<rparr>) gw p = train_with_dataset L gw p)
       \<and> (\<forall>g s0. get_model_info (L\<lparr>scaler_fit := g\<rparr>) s0 = get_model_info L s0)
       \<and> (\<forall>s0 t. scaler (fst (set_threshold s0 t)) = scaler s0)
       \<and> (\<forall>s0 w0 d. scaler (fst (predict L s0 w0 d)) = scaler s0
             \<or> (model s0 = None
                 \<and> files w0 (scaler_path s0) = Some (scaler (fst (predict L s0 w0 d)))))"
proof -
  from train_body_Inr[OF train_success_body[OF assms]]
  obtain X sc' data_scaled f w2 where
    X: "to_2d data = Inr X"
    and ft: "obj_fit_transform L (scaler s) X = (sc', Inr data_scaled)"
    and ff: "forest_fit L (forest_new L c) data_scaled = (f, None)"
    and sw: "(s', w') = (s\<lparr>scaler := sc', model := Some (IsolationForest f), is_trained := True\<rparr>, w2)"
    by blast
  from obj_fit_transform_Inr[OF ft] obtain sc0 sc where
    s0: "scaler s = StandardScaler sc0" and fit: "scaler_fit L sc0 X = (sc, None)"
    and sc': "sc' = StandardScaler sc" and tr: "scaler_transform L sc X = Inr data_scaled"
    by blast
  have s': "scaler s' = StandardScaler sc" "model s' = Some (IsolationForest f)" "is_trained s'"
    using sw sc' by auto
  have p: "predict L s' w'' d = (s', scoring L (StandardScaler sc) (IsolationForest f) d)" for w'' d
    using predict_loaded[OF s'(2) s'(3), of L w'' d] s'(1) by simp
  have one: "\<forall>w'' d. predict L s' w'' d =
                (s',
                 case to_2d d of
                   Inl e \<Rightarrow> Inl (Exc ValueError (''Error during prediction: '' @ msg e))
                 | Inr X' \<Rightarrow>
                     (case scaler_transform L sc X' of
                        Inl e \<Rightarrow> Inl (Exc ValueError (''Error during prediction: '' @ msg e))
                      | Inr scaled \<Rightarrow>
                          (case forest_score_samples L f scaled of
                             Inl e \<Rightarrow> Inl (Exc ValueError (''Error during prediction: '' @ msg e))
                           | Inr raw \<Rightarrow>
                               (case forest_predict L f scaled of
                                  Inl e \<Rightarrow>
                                    Inl (Exc ValueError (''Error during prediction: '' @ msg e))
                                | Inr ps \<Rightarrow>
                                    Inr (map uminus raw,
                                         map (\<lambda>p. if p = - 1 then 1 else 0) ps)))))"
    unfolding p scoring_fitted by simp
  have same: "\<forall>w''. snd (predict L s' w'' data) =
                (case forest_score_samples L f data_scaled of
                   Inl e \<Rightarrow> Inl (Exc ValueError (''Error during prediction: '' @ msg e))
                 | Inr raw \<Rightarrow>
                     (case forest_predict L f data_scaled of
                        Inl e \<Rightarrow> Inl (Exc ValueError (''Error during prediction: '' @ msg e))
                      | Inr ps \<Rightarrow>
                          Inr (map uminus raw,
                               map (\<lambda>p. if p = - 1 then 1 else 0) ps)))"
    unfolding p scoring_fitted by (simp add: X tr)
  have all: "\<forall>w'' ds. predict_all L s' w'' ds = (s', map (\<lambda>d. snd (predict L s' w'' d)) ds)"
    using predict_all_loaded[OF s'(2) s'(3), of L] by simp
  have first: "\<exists>sc0 sc f X data_scaled.
            scaler s = StandardScaler sc0 \<and> to_2d data = Inr X
          \<and> scaler_fit L sc0 X = (sc, None)
          \<and> scaler_transform L sc X = Inr data_scaled
          \<and> forest_fit L (forest_new L c) data_scaled = (f, None)
          \<and> scaler s' = StandardScaler sc \<and> model s' = Some (IsolationForest f) \<and> is_trained s'
          \<and> (\<forall>w'' d. predict L s' w'' d =
                (s',
                 case to_2d d of
                   Inl e \<Rightarrow> Inl (Exc ValueError (''Error during prediction: '' @ msg e))
                 | Inr X' \<Rightarrow>
                     (case scaler_transform L sc X' of
                        Inl e \<Rightarrow> Inl (Exc ValueError (''Error during prediction: '' @ msg e))
                      | Inr scaled \<Rightarrow>
                          (case forest_score_samples L f scaled of
                             Inl e \<Rightarrow> Inl (Exc ValueError (''Error during prediction: '' @ msg e))
                           | Inr raw \<Rightarrow>
                               (case forest_predict L f scaled of
                                  Inl e \<Rightarrow>
                                    Inl (Exc ValueError (''Error during prediction: '' @ msg e))
                                | Inr ps \<Rightarrow>
                                    Inr (map uminus raw,
                                         map (\<lambda>p. if p = - 1 then 1 else 0) ps))))))
          \<and> (\<forall>w''. snd (predict L s' w'' data) =
                (case forest_score_samples L f data_scaled of
                   Inl e \<Rightarrow> Inl (Exc ValueError (''Error during prediction: '' @ msg e))
                 | Inr raw \<Rightarrow>
                     (case forest_predict L f data_scaled of
                        Inl e \<Rightarrow> Inl (Exc ValueError (''Error during prediction: '' @ msg e))
                      | Inr ps \<Rightarrow>
                          Inr (map uminus raw,
                               map (\<lambda>p. if p = - 1 then 1 else 0) ps))))
          \<and> (\<forall>w'' ds. predict_all L s' w'' ds = (s', map (\<lambda>d. snd (predict L s' w'' d)) ds))"
    apply (rule exI[of _ sc0], rule exI[of _ sc], rule exI[of _ f], rule exI[of _ X],
           rule exI[of _ data_scaled])
    using s0 X fit tr ff s' one same all by (intro conjI) assumption+
  have thr: "\<forall>s0 t. scaler (fst (set_threshold s0 t)) = scaler s0"
    by (simp add: set_threshold_def)
  have info: "\<forall>g s0. get_model_info (L\<lparr>scaler_fit := g\<rparr>) s0 = get_model_info L s0"
    by (simp add: get_model_info_def)
  show ?thesis
    using first thr info predict_keeps_or_loads[of L]
    by (simp only: predict_no_fit predict_batch_no_fit load_model_no_fit train_with_dataset_no_fit
          simp_thms)
qed

theorem predict_uses_fitted_scaler_witness:
  "predict_all demo_lib trained_model empty_world [PyList [1, 2, 30], Array1 [3], PyList [1, 2, 30]]
     = (trained_model, [Inr ([1, 0, 28], [0, 0, 1]), Inr ([1], [0]), Inr ([1, 0, 28], [0, 0, 1])])
   \<and> snd (predict demo_lib trained_model empty_world (PyList [1, 2, 3])) = Inr ([1, 0, 1], [0, 0, 0])"
proof -
  have t: "train demo_lib (fresh_model, models_world) (PyList [1, 2, 3]) (1 / 10)
     = ((trained_model, trained_world), Inr (TrainSuccess 3 (2 / 3) 1 0 ''2024-01-01T00:00:00''))"
    using train_body_demo by (simp add: train_def)
  have st: "status (TrainSuccess 3 (2 / 3) 1 0 ''2024-01-01T00:00:00'') = ''success''" by simp
  from predict_uses_fitted_scaler[OF t st, THEN conjunct1]
  obtain sc f where
    a: "scaler trained_model = StandardScaler sc" "model trained_model = Some (IsolationForest f)"
    and one: "\<forall>w'' d. predict demo_lib trained_model w'' d =
                (trained_model,
                 case to_2d d of
                   Inl e \<Rightarrow> Inl (Exc ValueError (''Error during prediction: '' @ msg e))
                 | Inr X' \<Rightarrow>
                     (case scaler_transform demo_lib sc X' of
                        Inl e \<Rightarrow> Inl (Exc ValueError (''Error during prediction: '' @ msg e))
                      | Inr scaled \<Rightarrow>
                          (case forest_score_samples demo_lib f scaled of
                             Inl e \<Rightarrow> Inl (Exc ValueError (''Error during prediction: '' @ msg e))
                           | Inr raw \<Rightarrow>
                               (case forest_predict demo_lib f scaled of
                                  Inl e \<Rightarrow>
                                    Inl (Exc ValueError (''Error during prediction: '' @ msg e))
                                | Inr ps \<Rightarrow>
                                    Inr (map uminus raw,
                                         map (\<lambda>p. if p = - 1 then 1 else 0) ps)))))"
    and all: "\<forall>w'' ds. predict_all demo_lib trained_model w'' ds
                = (trained_model, map (\<lambda>d. snd (predict demo_lib trained_model w'' d)) ds)"
    by (elim exE conjE) (rule that)
  have sc: "sc = Some 2" and f: "f = (1 / 10, True)" using a by (simp_all add: trained_model_def)
  have p1: "snd (predict demo_lib trained_model empty_world (PyList [1, 2, 30])) = Inr ([1, 0, 28], [0, 0, 1])"
    by (subst one[rule_format]) (simp add: sc f demo_lib_def)
  have p2: "snd (predict demo_lib trained_model empty_world (Array1 [3])) = Inr ([1], [0])"
    by (subst one[rule_format]) (simp add: sc f demo_lib_def)
  have p3: "snd (predict demo_lib trained_model empty_world (PyList [1, 2, 3])) = Inr ([1, 0, 1], [0, 0, 0])"
    by (subst one[rule_format]) (simp add: sc f demo_lib_def)
  show ?thesis
    by (subst all[rule_format]) (simp add: p1 p2 p3)
qed

lemma batch_loop_prefix:
  "batch_loop L s w i pre acc = (s1, Inr res) \<Longrightarrow>
   batch_loop L s w i (pre @ rest) acc = batch_loop L s1 w (i + length pre) rest res"
proof (induction pre arbitrary: s i acc)
  case Nil
  then show ?case by simp
next
  case (Cons d pre)
  then show ?case
    by (auto split: prod.splits sum.splits list.splits)
qed

lemma batch_loop_keys:
  "batch_loop L s w i ds acc = (s', Inr res) \<Longrightarrow>
   length res = length acc + length ds \<and> take (length acc) res = acc
   \<and> map fst (drop (length acc) res) = [i ..< i + length ds]"
proof (induction ds arbitrary: s i acc)
  case Nil
  then show ?case by simp
next
  case (Cons d ds)
  from Cons.prems obtain s1 sc lb l ls where
    p: "predict L s w (Array1 d) = (s1, Inr (sc, lb))" and lb: "lb = l # ls"
    and rest: "batch_loop L s1 w (Suc i) ds
                 (acc @ [(i, \<lparr>scores = sc, labels = lb, is_anomalous = (fold max ls l = 1)\<rparr>)])
               = (s', Inr res)"
    by (auto split: prod.splits sum.splits list.splits)
  let ?acc = "acc @ [(i, \<lparr>scores = sc, labels = lb, is_anomalous = (fold max ls l = 1)\<rparr>)]"
  from Cons.IH[OF rest] have
    len: "length res = length ?acc + length ds" and tk: "take (length ?acc) res = ?acc"
    and keys: "map fst (drop (length ?acc) res) = [Suc i ..< Suc i + length ds]"
    by blast+
  have t1: "take (length acc) res = acc"
  proof -
    have "take (length acc) (take (length ?acc) res) = take (length acc) ?acc" by (simp only: tk)
    then show ?thesis by (simp add: min_def)
  qed
  have nth: "res ! length acc = (i, \<lparr>scores = sc, labels = lb, is_anomalous = (fold max ls l = 1)\<rparr>)"
  proof -
    have "res ! length acc = take (length ?acc) res ! length acc" by simp
    also have "\<dots> = ?acc ! length acc" by (simp only: tk)
    finally show ?thesis by simp
  qed
  have lt: "length acc < length res" using len by simp
  have dr: "drop (length acc) res = res ! length acc # drop (Suc (length acc)) res"
    using lt by (simp add: Cons_nth_drop_Suc)
  have "map fst (drop (length acc) res) = i # [Suc i ..< Suc i + length ds]"
    using keys by (subst dr) (simp add: nth)
  also have "\<dots> = [i ..< i + length (d # ds)]" by (simp add: upt_conv_Cons del: upt_Suc)
  finally show ?case using len t1 by simp
qed

lemma predict_batch_never_Inl: "snd (predict_batch L s w ds) \<noteq> Inl e"
  by (simp add: predict_batch_def split: prod.splits sum.splits)

text \<open>
  Claim C2, as amended. \<^verbatim>\<open>predict_batch\<close> never raises and runs \<^verbatim>\<open>predict\<close> on the
  series in order, on the one instance. When \<^verbatim>\<open>predict\<close> raises on a series, after the
  series before it have succeeded, the batch stops there: the report has status error
  and the message of that exception and holds no prediction, whatever series follow.
  When every series succeeds the report has status success and one entry for each
  series, keyed by its position.
\<close>

theorem predict_batch_aborts:
  "(\<forall>e. snd (predict_batch L s w data_list) \<noteq> Inl e)
   \<and> (\<forall>pre d post s1 res s2 e.
         data_list = pre @ d # post \<and> batch_loop L s w 0 pre [] = (s1, Inr res)
         \<and> predict L s1 w (Array1 d) = (s2, Inl e) \<longrightarrow>
         predict_batch L s w data_list = (s2, Inr (BatchError (msg e) (now L))))
   \<and> (\<forall>s' res. batch_loop L s w 0 data_list [] = (s', Inr res) \<longrightarrow>
         predict_batch L s w data_list = (s', Inr (BatchSuccess res (now L)))
       \<and> map fst res = [0 ..< length data_list])"
proof (intro conjI allI impI)
  fix e show "snd (predict_batch L s w data_list) \<noteq> Inl e" by (rule predict_batch_never_Inl)
next
  fix pre d post s1 res s2 e
  assume a: "data_list = pre @ d # post \<and> batch_loop L s w 0 pre [] = (s1, Inr res)
         \<and> predict L s1 w (Array1 d) = (s2, Inl e)"
  then have "batch_loop L s w 0 data_list [] = batch_loop L s1 w (0 + length pre) (d # post) res"
    using batch_loop_prefix[of L s w 0 pre "[]" s1 res "d # post"] by simp
  also have "\<dots> = (s2, Inl e)" using a by simp
  finally show "predict_batch L s w data_list = (s2, Inr (BatchError (msg e) (now L)))"
    by (simp add: predict_batch_def)
next
  fix s' res assume a: "batch_loop L s w 0 data_list [] = (s', Inr res)"
  show "predict_batch L s w data_list = (s', Inr (BatchSuccess res (now L)))"
    using a by (simp add: predict_batch_def)
  show "map fst res = [0 ..< length data_list]"
    using batch_loop_keys[OF a] by simp
qed


theorem predict_batch_aborts_witness:
  "predict_batch demo_lib trained_model trained_world [[1, 2], [], [3]]
     = (trained_model, Inr (BatchError (''Error during prediction: '' @ msg no_sample) (now demo_lib)))
   \<and> predict_batch demo_lib trained_model trained_world [[1, 2], [3, 30]]
     = (trained_model,
        Inr (BatchSuccess
          [(0, \<lparr>scores = [1, 0], labels = [0, 0], is_anomalous = False\<rparr>),
           (1, \<lparr>scores = [1, 28], labels = [0, 1], is_anomalous = True\<rparr>)]
          (now demo_lib)))"
proof -
  have tm: "model trained_model = Some (IsolationForest (1 / 10, True))" "is_trained trained_model"
    "scaler trained_model = StandardScaler (Some 2)"
    by (simp_all add: trained_model_def)
  have p: "predict demo_lib trained_model trained_world d
             = (trained_model, scoring demo_lib (StandardScaler (Some 2)) (IsolationForest (1 / 10, True)) d)" for d
    using predict_loaded[OF tm(1) tm(2), of demo_lib trained_world d] by (simp add: tm(3))
  have s0: "scoring demo_lib (StandardScaler (Some 2)) (IsolationForest (1 / 10, True)) (Array1 [1, 2])
              = Inr ([1, 0], [0, 0])"
    by (simp add: scoring_def predict_body_def demo_lib_def)
  have s1: "scoring demo_lib (StandardScaler (Some 2)) (IsolationForest (1 / 10, True)) (Array1 [])
              = Inl (Exc ValueError (''Error during prediction: '' @ msg no_sample))"
    by (simp add: scoring_def predict_body_def demo_lib_def)
  have s2: "scoring demo_lib (StandardScaler (Some 2)) (IsolationForest (1 / 10, True)) (Array1 [3, 30])
              = Inr ([1, 28], [0, 1])"
    by (simp add: scoring_def predict_body_def demo_lib_def)
  have pre: "batch_loop demo_lib trained_model trained_world 0 [[1, 2]] []
               = (trained_model, Inr [(0, \<lparr>scores = [1, 0], labels = [0, 0], is_anomalous = False\<rparr>)])"
    by (simp add: p s0)
  have bad: "predict demo_lib trained_model trained_world (Array1 [])
               = (trained_model, Inl (Exc ValueError (''Error during prediction: '' @ msg no_sample)))"
    by (simp add: p s1)
  have all: "batch_loop demo_lib trained_model trained_world 0 [[1, 2], [3, 30]] []
               = (trained_model,
                  Inr [(0, \<lparr>scores = [1, 0], labels = [0, 0], is_anomalous = False\<rparr>),
                       (1, \<lparr>scores = [1, 28], labels = [0, 1], is_anomalous = True\<rparr>)])"
    by (simp add: p s0 s2)
  have split: "[[1, 2], [], [3]] = [[1, 2]] @ [] # [[3 :: real]]" by simp
  have a: "predict_batch demo_lib trained_model trained_world [[1, 2], [], [3]]
     = (trained_model, Inr (BatchError (msg (Exc ValueError (''Error during prediction: '' @ msg no_sample))) (now demo_lib)))"
    using predict_batch_aborts[of demo_lib trained_model trained_world "[[1, 2], [], [3]]"] split pre bad
    by blast
  have b: "predict_batch demo_lib trained_model trained_world [[1, 2], [3, 30]]
     = (trained_model,
        Inr (BatchSuccess
          [(0, \<lparr>scores = [1, 0], labels = [0, 0], is_anomalous = False\<rparr>),
           (1, \<lparr>scores = [1, 28], labels = [0, 1], is_anomalous = True\<rparr>)]
          (now demo_lib)))"
    using predict_batch_aborts[of demo_lib trained_model trained_world "[[1, 2], [3, 30]]"] all
    by blast
  show ?thesis using a b by simp
qed

text \<open>
  Claim C2 as stated fails: in a batch of three series whose second one is empty, the
  first and the third series can be scored on their own, yet the report of the batch is
  the error of the second series alone, without the result of the first and without the
  third.
\<close>

theorem predict_batch_counterexample:
  "snd (predict demo_lib trained_model trained_world (Array1 [1, 2])) = Inr ([1, 0], [0, 0])
   \<and> snd (predict demo_lib trained_model trained_world (Array1 [3])) = Inr ([1], [0])
   \<and> predict_batch demo_lib trained_model trained_world [[1, 2], [], [3]]
       = (trained_model,
          Inr (BatchError
                 ''Error during prediction: Found array with 0 sample(s) while a minimum of 1 is required''
                 ''2024-01-01T00:00:00''))"
  by (simp add: predict_batch_def predict_def load_if_none_def scoring_def predict_body_def
        trained_model_def fresh_model_def demo_lib_def no_sample_def)






lemma tw_True:
  assumes "train_with_dataset_try L gw p = (gw', Inr True)"
  shows "\<exists>df sequences min_val max_val lstm_model m w'.
           read_csv L p = Inr df
         \<and> prepare_data L df 30 None = Inr (sequences, min_val, max_val)
         \<and> sequences \<noteq> []
         \<and> train_lstm_model L sequences 50 32 = Inr lstm_model
         \<and> get_model L (fst gw) (snd gw) = Inr (m, w')
         \<and> gw' = (Some (m\<lparr>model := Some (Sequential lstm_model), is_trained := True\<rparr>), w')"
  using assms unfolding train_with_dataset_try_def train_with_dataset_body_def
  by (auto split: prod.splits sum.splits if_splits)






lemma tw_succeeds:
  "read_csv L p = Inr df \<Longrightarrow> prepare_data L df 30 None = Inr (sequences, min_val, max_val) \<Longrightarrow>
   sequences \<noteq> [] \<Longrightarrow> train_lstm_model L sequences 50 32 = Inr lstm_model \<Longrightarrow>
   get_model L (fst gw) (snd gw) = Inr (m, w') \<Longrightarrow>
   train_with_dataset_try L gw p
     = ((Some (m\<lparr>model := Some (Sequential lstm_model), is_trained := True\<rparr>), w'), Inr True)"
  by (cases gw) (simp add: train_with_dataset_try_def train_with_dataset_body_def)






lemma train_with_dataset_imported:
  "import_datasets L = None \<Longrightarrow> import_train_lstm_model L = None \<Longrightarrow>
   train_with_dataset L gw p = train_with_dataset_try L gw p"
  by (simp add: train_with_dataset_def)

lemma train_with_dataset_True_try:
  "train_with_dataset L gw p = (gw', Inr True) \<Longrightarrow> train_with_dataset_try L gw p = (gw', Inr True)"
  by (auto simp: train_with_dataset_def split: option.splits)


lemma astype_float_Num: "astype_float (map Num vs) = Inr vs"
  by (induction vs) simp_all

lemma create_sequences_30:
  assumes "30 \<le> length data"
  shows "\<exists>ws. create_sequences data 30 = Inr ws \<and> length ws = length data - 29"
proof -
  let ?ws = "map (\<lambda>i. take 30 (drop i data)) [0 ..< length data - 30 + 1]"
  have w: "windows data (int 30) = ?ws" by (rule windows_nonneg[OF assms])
  have len: "\<forall>r \<in> set ?ws. length r = 30" using assms by (auto simp del: upt_Suc)
  have hdlen: "length (hd ?ws) = 30" using assms by (simp add: hd_map upt_rec del: upt_Suc)
  have "create_sequences data (int 30) = Inr ?ws"
    unfolding create_sequences_def w np_array_rows_def using len hdlen by simp
  moreover have "length ?ws = length data - 29" using assms by (simp del: upt_Suc)
  ultimately show ?thesis by (metis of_nat_numeral)
qed

lemma prepare_data_long:
  assumes "astype_float cells = Inr vs" "30 \<le> length vs"
  shows "\<exists>sequences min_val max_val.
           prepare_data L ((name, cells) # rest) 30 None = Inr (sequences, min_val, max_val)
         \<and> length sequences = length vs - 29"
proof -
  have ne: "vs \<noteq> []" using assms(2) by auto
  obtain norm mn mx where n: "normalize_data L vs = Inr (norm, mn, mx)" and l: "length norm = length vs"
    using normalize_data_length[OF ne, of L] by blast
  obtain ws where "create_sequences norm 30 = Inr ws" "length ws = length norm - 29"
    using create_sequences_30[of norm] assms(2) l by auto
  then show ?thesis using assms(1) n l by (simp add: prepare_data_def select_column_def)
qed

lemma train_lstm_model_demo:
  "sequences \<noteq> [] \<Longrightarrow> train_lstm_model demo_lib sequences epochs batch_size = Inr (length sequences)"
  by (cases sequences) (simp_all add: train_lstm_model_def demo_lib_def)

lemma ramp_prepared:
  "\<exists>sequences min_val max_val.
     read_csv demo_lib ''ramp.csv'' = Inr [(''value'', map Num ramp)]
   \<and> prepare_data demo_lib [(''value'', map Num ramp)] 30 None = Inr (sequences, min_val, max_val)
   \<and> sequences \<noteq> []
   \<and> train_lstm_model demo_lib sequences 50 32 = Inr 2"
proof -
  have r: "read_csv demo_lib ''ramp.csv'' = Inr [(''value'', map Num ramp)]"
    by (simp add: demo_lib_def)
  have len: "length ramp = 31" by (simp add: ramp_def)
  obtain sequences min_val max_val where
    p: "prepare_data demo_lib [(''value'', map Num ramp)] 30 None = Inr (sequences, min_val, max_val)"
    and l: "length sequences = length ramp - 29"
    using prepare_data_long[OF astype_float_Num, of ramp demo_lib "''value''" "[]"] len by auto
  have l2: "length sequences = 2" using l len by simp
  then have ne: "sequences \<noteq> []" by auto
  have "train_lstm_model demo_lib sequences 50 32 = Inr 2"
    using train_lstm_model_demo[OF ne] l2 by simp
  then show ?thesis using r p ne by blast
qed

lemma demo_imports:
  "import_datasets demo_lib = None \<and> import_train_lstm_model demo_lib = None"
  by (simp add: demo_lib_def)



lemma get_model_files:
  "get_model L g w = Inr (m, w') \<Longrightarrow>
   files w' = files w \<and> (w' = w \<or> (g = None \<and> files w ''models'' = None \<and> w' = w\<lparr>dirs := insert ''models'' (dirs w)\<rparr>))"
  unfolding get_model_def init_def dirname_default
  by (auto simp: os_makedirs_def split: option.splits sum.splits if_splits)

lemma load_model_fresh_dirs:
  assumes "files w ''models'' = None"
  shows "load_model L None (w\<lparr>dirs := insert ''models'' (dirs w)\<rparr>) = load_model L None w"
proof -
  let ?w' = "w\<lparr>dirs := insert ''models'' (dirs w)\<rparr>"
  have a: "os_makedirs w ''models'' = Inr ?w'" using assms by (simp add: os_makedirs_def)
  have b: "os_makedirs ?w' ''models'' = Inr ?w'" using assms by (simp add: os_makedirs_def)
  show ?thesis
    unfolding load_model_def get_model_def init_def dirname_default
    by (simp add: a b)
qed

text \<open>
  Claim C10. A \<^verbatim>\<open>train_with_dataset\<close> that returns \<open>True\<close> leaves the singleton marked
  trained with the sequence model in memory, and leaves every persisted file as it was
  (at most the directory of the default model path is created). So \<^verbatim>\<open>load_model\<close> in
  a fresh process, where the global is \<open>None\<close>, gives the same result after the
  training as before it.
\<close>

theorem train_with_dataset_writes_no_file:
  assumes "train_with_dataset L (g, w) p = ((g', w'), Inr True)"
  shows "files w' = files w
       \<and> (\<exists>m lstm_model. g' = Some m \<and> is_trained m \<and> model m = Some (Sequential lstm_model))
       \<and> load_model L None w' = load_model L None w"
proof -
  from tw_True[OF train_with_dataset_True_try[OF assms]] obtain lstm_model m0 w0 where
    g: "get_model L g w = Inr (m0, w0)"
    and r: "(g', w') = (Some (m0\<lparr>model := Some (Sequential lstm_model), is_trained := True\<rparr>), w0)"
    by auto
  have w0: "w' = w0" and g': "g' = Some (m0\<lparr>model := Some (Sequential lstm_model), is_trained := True\<rparr>)"
    using r by simp_all
  from get_model_files[OF g] have f: "files w' = files w"
    and d: "w' = w \<or> (files w ''models'' = None \<and> w' = w\<lparr>dirs := insert ''models'' (dirs w)\<rparr>)"
    unfolding w0 by auto
  have l: "load_model L None w' = load_model L None w"
    using d load_model_fresh_dirs[of w L] by auto
  show ?thesis using f g' l by simp
qed

theorem train_with_dataset_writes_no_file_witness:
  "train_with_dataset demo_lib (None, persisted_world) ''ramp.csv''
     = ((Some lstm_singleton, persisted_world), Inr True)
   \<and> files persisted_world default_model_path = Some (IsolationForest (1 / 10, True))
   \<and> load_model demo_lib None persisted_world
     = ((Some loaded_singleton, persisted_world), Inr loaded_singleton)"
proof -
  define gw where "gw = (None :: (real \<times> bool, real option, nat) anomaly_model option, persisted_world)"
  have g: "get_model demo_lib (fst gw) (snd gw) = Inr (fresh_model, persisted_world)"
    by (simp add: gw_def get_model_def init_demo_persisted)
  obtain df sequences min_val max_val where
    r: "read_csv demo_lib ''ramp.csv'' = Inr df"
    and p: "prepare_data demo_lib df 30 None = Inr (sequences, min_val, max_val)"
    and ne: "sequences \<noteq> []"
    and t: "train_lstm_model demo_lib sequences 50 32 = Inr 2"
    using ramp_prepared by blast
  have a: "train_with_dataset demo_lib (None, persisted_world) ''ramp.csv''
     = ((Some (fresh_model\<lparr>model := Some (Sequential 2), is_trained := True\<rparr>), persisted_world), Inr True)"
    using tw_succeeds[OF r p ne t g] train_with_dataset_imported[of demo_lib gw "''ramp.csv''"]
          demo_imports
    by (simp add: gw_def)
  note T = train_with_dataset_writes_no_file[OF a]
  have paths: "model_path fresh_model = default_model_path" "scaler_path fresh_model = default_scaler_path"
    by (simp_all add: fresh_model_def)
  have f: "files persisted_world default_model_path = Some (IsolationForest (1 / 10, True))"
          "files persisted_world default_scaler_path = Some (StandardScaler (Some 2))"
    by (simp_all add: persisted_world_def default_model_path_def default_scaler_path_def)
  have l: "load_model demo_lib None persisted_world
     = ((Some loaded_singleton, persisted_world), Inr loaded_singleton)"
    using g by (simp add: gw_def load_model_def paths os_path_exists_def joblib_load_def f loaded_singleton_def Let_def)
  show ?thesis using a f(1) l T by (simp add: lstm_singleton_def)
qed

end
